theory Spec2Isabelle
  imports Main "HOL-Library.Sublist"
begin

section \<open>wol-mqtt: Wake-on-LAN packets controlled by MQTT messages\<close>

text \<open>
  A shallow embedding of \<^verbatim>\<open>wol-mqtt.py\<close>. Everything the script does to the outside
  world (log lines, helper invocations, pauses, calls on the MQTT client) is recorded,
  in order, in a trace of events that every function takes and returns extended.
  Exceptions are values: a function returns \<open>Inl e\<close> where the Python raises \<open>e\<close>.
  What the libraries answer (UTF-8 decoding, \<^verbatim>\<open>json.loads\<close>, the outcome of running the
  helper) is not code of the script and is a parameter of the model, the record \<open>env\<close>.
\<close>

subsection \<open>Python values, exceptions, events\<close>

text \<open>
  The values \<^verbatim>\<open>json.loads\<close> can return. A dict is an association list read with
  \<open>map_of\<close>. A float \<open>PyFloat m e\<close> stands for \<open>m * 2 ^ e\<close>; the script never looks
  at the value of a float. Text is a HOL string, a character standing for the code
  point of the same number.
\<close>

datatype pyval =
    PyNone
  | PyBool bool
  | PyInt int
  | PyFloat int int
  | PyStr string
  | PyList "pyval list"
  | PyDict "(string \<times> pyval) list"

datatype exc =
    JSONDecodeError
  | UnicodeDecodeError
  | TypeError
  | KeyError
  | ValueError
  | FileNotFoundError
  | ConnectionRefusedError
  | KeyboardInterrupt
  | OtherError string

datatype level = DEBUG | INFO | ERROR

datatype event =
    Log level string
  | Run "pyval list"
  | Sleep int
  | Subscribe string
  | Publish string string
  | Disconnect
  | Connect string int int
  | LoopStart
  | LoopStop
  | NewClient string
  | WillSet string string
  | UsernamePwSet string string

type_synonym trace = "event list"

text \<open>What \<^verbatim>\<open>subprocess.run(..., capture_output=True, text=True)\<close> gives: a completed
  process with return code, standard output and standard error, or an exception.\<close>

datatype proc_outcome =
    Completed int string string
  | ProcRaised exc

text \<open>
  The library behaviour the script relies on:
  \<^item> \<open>decode_utf8 b\<close> is \<^verbatim>\<open>str(b, "UTF-8")\<close>;
  \<^item> \<open>json_loads b\<close> is \<^verbatim>\<open>json.loads(b)\<close>;
  \<^item> \<open>repr_other v\<close> is the text \<^verbatim>\<open>str.format\<close> substitutes for a float, list or dict;
  \<^item> \<open>run_helper k argv\<close> is the outcome of the \<open>k\<close>-th call of \<^verbatim>\<open>subprocess.run\<close>
    (counted from 0 over the life of the process) on the argument strings \<open>argv\<close>.
\<close>

record env =
  decode_utf8 :: "string \<Rightarrow> exc + string"
  json_loads :: "string \<Rightarrow> exc + pyval"
  repr_other :: "pyval \<Rightarrow> string"
  run_helper :: "nat \<Rightarrow> string list \<Rightarrow> proc_outcome"

record mqtt_msg =
  topic :: string
  payload :: string

subsection \<open>Python built-ins used by the script\<close>

definition quote :: string where
  "quote = [CHR 0x27]"

fun str_nat :: "nat \<Rightarrow> string" where
  "str_nat n = (if n < 10 then [''0123456789'' ! n]
                else str_nat (n div 10) @ [''0123456789'' ! (n mod 10)])"

declare str_nat.simps [simp del]

definition str_int :: "int \<Rightarrow> string" where
  "str_int i = (if i < 0 then ''-'' @ str_nat (nat (- i)) else str_nat (nat i))"

text \<open>The text \<^verbatim>\<open>"{x}".format(x=v)\<close> puts in place of \<^verbatim>\<open>{x}\<close>.\<close>

definition format_value :: "env \<Rightarrow> pyval \<Rightarrow> string" where
  "format_value en v =
     (case v of
        PyNone \<Rightarrow> ''None''
      | PyBool b \<Rightarrow> (if b then ''True'' else ''False'')
      | PyInt i \<Rightarrow> str_int i
      | PyStr s \<Rightarrow> s
      | _ \<Rightarrow> repr_other en v)"

text \<open>\<^verbatim>\<open>needle in hay\<close> on two strings: \<open>needle\<close> occurs in \<open>hay\<close> as a contiguous run.\<close>

fun py_in_str :: "string \<Rightarrow> string \<Rightarrow> bool" where
  "py_in_str needle [] = (needle = [])"
| "py_in_str needle (c # cs) = (prefix needle (c # cs) \<or> py_in_str needle cs)"

text \<open>\<^verbatim>\<open>key in data\<close> for a string \<open>key\<close>: membership among the keys of a dict, among the
  items of a list, substring test on a string; any other value is not iterable.\<close>

definition py_in :: "string \<Rightarrow> pyval \<Rightarrow> exc + bool" where
  "py_in key data =
     (case data of
        PyDict kvs \<Rightarrow> Inr (key \<in> set (map fst kvs))
      | PyList xs \<Rightarrow> Inr (PyStr key \<in> set xs)
      | PyStr s \<Rightarrow> Inr (py_in_str key s)
      | _ \<Rightarrow> Inl TypeError)"

text \<open>\<^verbatim>\<open>data[key]\<close> for a string \<open>key\<close>: only a dict can be indexed by a string.\<close>

definition py_getitem :: "pyval \<Rightarrow> string \<Rightarrow> exc + pyval" where
  "py_getitem data key =
     (case data of
        PyDict kvs \<Rightarrow> (case map_of kvs key of Some v \<Rightarrow> Inr v | None \<Rightarrow> Inl KeyError)
      | _ \<Rightarrow> Inl TypeError)"

text \<open>The integer \<^verbatim>\<open>range(count)\<close> reads from its argument: an int, or a bool
  (a subclass of int); anything else raises \<^verbatim>\<open>TypeError\<close>.\<close>

definition py_index :: "pyval \<Rightarrow> exc + int" where
  "py_index v =
     (case v of
        PyInt n \<Rightarrow> Inr n
      | PyBool b \<Rightarrow> Inr (if b then 1 else 0)
      | _ \<Rightarrow> Inl TypeError)"

text \<open>\<^verbatim>\<open>str.isspace\<close> on the code points below 256, and \<^verbatim>\<open>str.strip()\<close>.\<close>

definition py_isspace :: "char \<Rightarrow> bool" where
  "py_isspace c =
     (let n = (of_char c :: nat)
      in (9 \<le> n \<and> n \<le> 13) \<or> (28 \<le> n \<and> n \<le> 32) \<or> n = 133 \<or> n = 160)"

definition py_strip :: "string \<Rightarrow> string" where
  "py_strip s = rev (dropWhile py_isspace (rev (dropWhile py_isspace s)))"

text \<open>The argument list of \<^verbatim>\<open>subprocess.run\<close> must consist of strings.\<close>

fun argv_of :: "pyval list \<Rightarrow> string list option" where
  "argv_of [] = Some []"
| "argv_of (PyStr s # vs) = (case argv_of vs of Some ss \<Rightarrow> Some (s # ss) | None \<Rightarrow> None)"
| "argv_of (v # vs) = None"

definition subprocess_run :: "env \<Rightarrow> nat \<Rightarrow> pyval list \<Rightarrow> proc_outcome" where
  "subprocess_run en k args =
     (case argv_of args of
        None \<Rightarrow> ProcRaised TypeError
      | Some argv \<Rightarrow> run_helper en k argv)"

text \<open>The number of helper invocations recorded in a trace.\<close>

fun is_run :: "event \<Rightarrow> bool" where
  "is_run (Run args) = True"
| "is_run e = False"

fun is_sleep :: "event \<Rightarrow> bool" where
  "is_sleep (Sleep n) = True"
| "is_sleep e = False"

fun is_error_log :: "event \<Rightarrow> bool" where
  "is_error_log (Log ERROR s) = True"
| "is_error_log e = False"

definition n_runs :: "trace \<Rightarrow> nat" where
  "n_runs tr = length (filter is_run tr)"

definition n_sleeps :: "trace \<Rightarrow> nat" where
  "n_sleeps tr = length (filter is_sleep tr)"

subsection \<open>Packet sender\<close>

definition helper_args :: "pyval \<Rightarrow> pyval \<Rightarrow> pyval list" where
  "helper_args mac ip =
     (if ip = PyNone then [PyStr ''wakeonlan'', mac]
      else [PyStr ''wakeonlan'', PyStr ''-i'', ip, mac])"

definition send_wol :: "env \<Rightarrow> pyval \<Rightarrow> pyval \<Rightarrow> trace \<Rightarrow> (exc + bool) \<times> trace" where
  "send_wol en mac ip tr =
     (let args = helper_args mac ip; tr1 = tr @ [Run args]
      in case subprocess_run en (n_runs tr) args of
           ProcRaised e \<Rightarrow> (Inl e, tr1)
         | Completed rc out err \<Rightarrow>
             if \<not> py_in_str ''magic packet'' out
             then (Inr False,
                   tr1 @ [Log ERROR (''Error sending WoL packet: '' @ quote @ py_strip err @ quote)])
             else (Inr True, tr1))"

subsection \<open>Wakeup orchestrator\<close>

text \<open>The loop \<^verbatim>\<open>for i in range(count)\<close>, entered at index \<open>i\<close> with bound \<open>n\<close>.\<close>

function wakeup_loop ::
  "env \<Rightarrow> pyval \<Rightarrow> pyval \<Rightarrow> int \<Rightarrow> int \<Rightarrow> trace \<Rightarrow> (exc + unit) \<times> trace" where
  "wakeup_loop en mac ip n i tr =
     (if i < n then
        (case send_wol en mac ip tr of
           (Inl e, tr1) \<Rightarrow> (Inl e, tr1)
         | (Inr ok, tr1) \<Rightarrow>
             if \<not> ok then (Inr (), tr1)
             else wakeup_loop en mac ip n (i + 1)
                    (if i < n - 1 then tr1 @ [Sleep 1] else tr1))
      else (Inr (), tr))"
  by pat_completeness auto
termination
  by (relation "measure (\<lambda>(en, mac, ip, n, i, tr). nat (n - i))") auto

declare wakeup_loop.simps [simp del]

text \<open>The line \<^verbatim>\<open>wakeup\<close> logs before it sends; without an IP the source's format string
  has no closing parenthesis.\<close>

definition announcement :: "env \<Rightarrow> pyval \<Rightarrow> pyval \<Rightarrow> pyval \<Rightarrow> string" where
  "announcement en mac ip count =
     (if ip = PyNone
      then ''Sending WoL (x'' @ format_value en count @ '' to '' @ format_value en mac
      else ''Sending WoL (x'' @ format_value en count @ '') to '' @ format_value en mac
             @ '' via '' @ format_value en ip)"

definition wakeup :: "env \<Rightarrow> pyval \<Rightarrow> pyval \<Rightarrow> pyval \<Rightarrow> trace \<Rightarrow> (exc + unit) \<times> trace" where
  "wakeup en mac ip count tr =
     (let tr1 = tr @ [Log INFO (announcement en mac ip count)]
      in case py_index count of
           Inl e \<Rightarrow> (Inl e, tr1)
         | Inr n \<Rightarrow> wakeup_loop en mac ip n 0 tr1)"

subsection \<open>Command decoder\<close>

text \<open>\<^verbatim>\<open>data[key] if key in data else dflt\<close>\<close>

definition get_or :: "pyval \<Rightarrow> string \<Rightarrow> pyval \<Rightarrow> exc + pyval" where
  "get_or data key dflt =
     (case py_in key data of
        Inl e \<Rightarrow> Inl e
      | Inr b \<Rightarrow> if b then py_getitem data key else Inr dflt)"

text \<open>The body of the \<^verbatim>\<open>try\<close> block of \<^verbatim>\<open>on_message\<close>; \<open>text\<close> is the decoded payload.\<close>

definition on_message_body :: "env \<Rightarrow> mqtt_msg \<Rightarrow> string \<Rightarrow> trace \<Rightarrow> (exc + unit) \<times> trace" where
  "on_message_body en msg text tr =
     (case json_loads en (payload msg) of
        Inl e \<Rightarrow> (Inl e, tr)
      | Inr data \<Rightarrow>
          (case get_or data ''ip'' PyNone of
             Inl e \<Rightarrow> (Inl e, tr)
           | Inr ip \<Rightarrow>
               (case get_or data ''repeat'' (PyInt 2) of
                  Inl e \<Rightarrow> (Inl e, tr)
                | Inr count \<Rightarrow>
                    (case py_in ''mac'' data of
                       Inl e \<Rightarrow> (Inl e, tr)
                     | Inr has_mac \<Rightarrow>
                         if has_mac then
                           (case py_getitem data ''mac'' of
                              Inl e \<Rightarrow> (Inl e, tr)
                            | Inr mac \<Rightarrow> wakeup en mac ip count tr)
                         else (Inr (), tr @ [Log ERROR
                                 (''No '' @ quote @ ''mac'' @ quote @ '' provided in payload: ''
                                  @ quote @ text @ quote)])))))"

text \<open>The handler \<^verbatim>\<open>except json.decoder.JSONDecodeError\<close> around the body: \<open>r\<close> is how
  the body ended.\<close>

definition except_JSONDecodeError :: "string \<Rightarrow> (exc + unit) \<times> trace \<Rightarrow> (exc + unit) \<times> trace" where
  "except_JSONDecodeError text r =
     (case r of
        (Inl JSONDecodeError, tr2) \<Rightarrow>
          (Inr (), tr2 @ [Log ERROR (''Malformed JSON payload: '' @ quote @ text @ quote)])
      | _ \<Rightarrow> r)"

definition on_message :: "env \<Rightarrow> mqtt_msg \<Rightarrow> trace \<Rightarrow> (exc + unit) \<times> trace" where
  "on_message en msg tr =
     (case decode_utf8 en (payload msg) of
        Inl e \<Rightarrow> (Inl e, tr)
      | Inr text \<Rightarrow>
          except_JSONDecodeError text
            (on_message_body en msg text
               (tr @ [Log DEBUG (''MQTT: Message '' @ topic msg @ '' = '' @ text)])))"

subsection \<open>Broker session callbacks and the main thread\<close>

record config =
  update_interval :: int
  mqtt_broker :: string
  mqtt_port :: int
  mqtt_user :: string
  mqtt_password :: string

definition MQTT_BASE_TOPIC :: string where
  "MQTT_BASE_TOPIC = ''wol''"

definition on_connect :: "int \<Rightarrow> trace \<Rightarrow> trace" where
  "on_connect rc tr =
     (let tr1 = tr @ [Log INFO (''MQTT: connected to broker with result code '' @ str_int rc)]
      in if rc = 0 then
           tr1 @ [Subscribe (MQTT_BASE_TOPIC @ ''/command''),
                  Publish (MQTT_BASE_TOPIC @ ''/status'') ''online'']
         else
           tr1 @ [Log ERROR ''Failed to correctly login to MQTT broker'', Disconnect, Sleep 5])"

text \<open>
  The main thread (the script from \<^verbatim>\<open>log.info("Starting up...")\<close> on) is a machine that
  moves when the call it is blocked in comes back. \<open>pc\<close> says where it is blocked:
  in \<^verbatim>\<open>client.connect\<close>, in the \<^verbatim>\<open>time.sleep(30)\<close> after a refused connection, in the
  \<^verbatim>\<open>time.sleep(UPDATE_INTERVAL)\<close> of the heartbeat loop, in the \<^verbatim>\<open>time.sleep(3)\<close> of the
  shutdown sequence; or the script has ended, normally or by an uncaught exception.
  An input is the outcome of the blocking call (it returned, or it raised, where
  \<^verbatim>\<open>KeyboardInterrupt\<close> is the interrupt signal), or a callback that the client's
  network thread runs meanwhile. A callback runs only while the network loop does, and
  an exception that leaves it stays in the network thread. A call on the client is an
  event of the trace: the client reports a failure, such as not being connected, in
  the value it returns, which the script never reads. The machine accepts a callback
  for as long as the script has not stopped the network loop, also after a callback
  has disconnected the client or has raised: it admits every run of the script with
  the client library, and more.
\<close>

datatype pc = Connecting | Backoff | Heartbeat | Closing | Exited | Crashed exc

datatype input = Returned | Raised exc | ConnAck int | Message mqtt_msg

record sys =
  pc :: pc
  looping :: bool
  events :: trace

definition status_topic :: string where
  "status_topic = MQTT_BASE_TOPIC @ ''/status''"

definition connect_attempt :: "config \<Rightarrow> trace" where
  "connect_attempt cfg =
     [Log INFO ''MQTT: connecting to broker...'',
      Connect (mqtt_broker cfg) (mqtt_port cfg) 60]"

definition heartbeat_round :: "config \<Rightarrow> trace" where
  "heartbeat_round cfg =
     [Log DEBUG ''MQTT: publishing online Status update'',
      Publish status_topic ''online'',
      Sleep (update_interval cfg)]"

definition refused :: "config \<Rightarrow> trace" where
  "refused cfg =
     [Log ERROR (''Failed to connect to broker on '' @ mqtt_broker cfg @ '':''
                 @ str_int (mqtt_port cfg)),
      Sleep 30]"

definition shutdown_head :: trace where
  "shutdown_head =
     [Log INFO ''MQTT: Publishing offline status'',
      Publish status_topic ''offline'',
      Sleep 3]"

definition shutdown_tail :: trace where
  "shutdown_tail = [Log INFO ''MQTT: disconnecting'', LoopStop, Disconnect]"

definition startup :: "config \<Rightarrow> sys" where
  "startup cfg =
     \<lparr>pc = Connecting, looping = False,
      events = [Log INFO ''Starting up...'',
                NewClient ''wol-mqtt'',
                WillSet status_topic ''offline'',
                UsernamePwSet (mqtt_user cfg) (mqtt_password cfg)] @ connect_attempt cfg\<rparr>"

text \<open>An exception in the main thread. Inside the inner \<^verbatim>\<open>try\<close> a refused connection
  is caught; everywhere inside the outer \<^verbatim>\<open>try\<close> the interrupt is; anything else ends
  the script before the shutdown sequence.\<close>

definition raise_main :: "config \<Rightarrow> bool \<Rightarrow> exc \<Rightarrow> sys \<Rightarrow> sys" where
  "raise_main cfg inner e s =
     (if inner \<and> e = ConnectionRefusedError then
        s\<lparr>pc := Backoff, events := events s @ refused cfg\<rparr>
      else if e = KeyboardInterrupt then
        s\<lparr>pc := Closing,
          events := events s @ [Log INFO ''Interrupted... shutting down''] @ shutdown_head\<rparr>
      else s\<lparr>pc := Crashed e, looping := False\<rparr>)"

definition callback :: "env \<Rightarrow> input \<Rightarrow> sys \<Rightarrow> sys" where
  "callback en inp s =
     (if \<not> looping s then s
      else case inp of
             ConnAck rc \<Rightarrow> s\<lparr>events := on_connect rc (events s)\<rparr>
           | Message m \<Rightarrow> s\<lparr>events := snd (on_message en m (events s))\<rparr>
           | _ \<Rightarrow> s)"

definition step :: "env \<Rightarrow> config \<Rightarrow> input \<Rightarrow> sys \<Rightarrow> sys" where
  "step en cfg inp s =
     (case pc s of
        Exited \<Rightarrow> s
      | Crashed e \<Rightarrow> s
      | Connecting \<Rightarrow>
          (case inp of
             Returned \<Rightarrow> s\<lparr>pc := Heartbeat, looping := True,
                           events := events s @ [LoopStart] @ heartbeat_round cfg\<rparr>
           | Raised e \<Rightarrow> raise_main cfg True e s
           | _ \<Rightarrow> callback en inp s)
      | Heartbeat \<Rightarrow>
          (case inp of
             Returned \<Rightarrow> s\<lparr>events := events s @ heartbeat_round cfg\<rparr>
           | Raised e \<Rightarrow> raise_main cfg True e s
           | _ \<Rightarrow> callback en inp s)
      | Backoff \<Rightarrow>
          (case inp of
             Returned \<Rightarrow> s\<lparr>pc := Connecting, events := events s @ connect_attempt cfg\<rparr>
           | Raised e \<Rightarrow> raise_main cfg False e s
           | _ \<Rightarrow> callback en inp s)
      | Closing \<Rightarrow>
          (case inp of
             Returned \<Rightarrow> s\<lparr>pc := Exited, looping := False,
                           events := events s @ shutdown_tail\<rparr>
           | Raised e \<Rightarrow> s\<lparr>pc := Crashed e, looping := False\<rparr>
           | _ \<Rightarrow> callback en inp s))"

primrec run :: "env \<Rightarrow> config \<Rightarrow> input list \<Rightarrow> sys \<Rightarrow> sys" where
  "run en cfg [] s = s"
| "run en cfg (inp # inps) s = run en cfg inps (step en cfg inp s)"

subsection \<open>Notions used to state the properties\<close>

text \<open>The \<open>k\<close>-th helper invocation of the process, made for \<open>mac\<close> and \<open>ip\<close>, is a send that
  succeeds: \<^verbatim>\<open>send_wol\<close> returns \<^verbatim>\<open>True\<close> there, neither \<^verbatim>\<open>False\<close> nor an exception.\<close>

definition send_ok :: "env \<Rightarrow> pyval \<Rightarrow> pyval \<Rightarrow> nat \<Rightarrow> bool" where
  "send_ok en mac ip k =
     (case subprocess_run en k (helper_args mac ip) of
        Completed rc out err \<Rightarrow> py_in_str ''magic packet'' out
      | ProcRaised e \<Rightarrow> False)"

text \<open>The events the loop adds to the trace when \<open>m\<close> iterations are left and the next
  helper invocation is number \<open>k\<close>: the loop again, as a list.\<close>

fun loop_events :: "env \<Rightarrow> pyval \<Rightarrow> pyval \<Rightarrow> nat \<Rightarrow> nat \<Rightarrow> trace" where
  "loop_events en mac ip k 0 = []"
| "loop_events en mac ip k (Suc m) =
     Run (helper_args mac ip) #
       (case subprocess_run en k (helper_args mac ip) of
          ProcRaised e \<Rightarrow> []
        | Completed rc out err \<Rightarrow>
            if py_in_str ''magic packet'' out
            then (if 0 < m then [Sleep 1] else []) @ loop_events en mac ip (Suc k) m
            else [Log ERROR (''Error sending WoL packet: '' @ quote @ py_strip err @ quote)])"

declare loop_events.simps(2) [simp del]

text \<open>Every pause of a trace has a helper invocation directly before it and another
  directly after it. \<open>paced prev es\<close> checks the events \<open>es\<close> that follow the event \<open>prev\<close>.\<close>

fun paced :: "event \<Rightarrow> trace \<Rightarrow> bool" where
  "paced prev [] = True"
| "paced prev (e # es) =
     ((if is_sleep e then is_run prev \<and> (case es of [] \<Rightarrow> False | e' # es' \<Rightarrow> is_run e')
       else True)
      \<and> paced e es)"

definition pauses_between_sends :: "trace \<Rightarrow> bool" where
  "pauses_between_sends evs =
     (case evs of [] \<Rightarrow> True | e # es \<Rightarrow> (if is_sleep e then False else paced e es))"

text \<open>No pause comes after a helper invocation that is not a successful send; \<open>ok k\<close>
  says whether invocation number \<open>k\<close> is one, and \<open>k\<close> numbers the next invocation.\<close>

fun no_pause_after_failure :: "(nat \<Rightarrow> bool) \<Rightarrow> nat \<Rightarrow> trace \<Rightarrow> bool" where
  "no_pause_after_failure ok k [] = True"
| "no_pause_after_failure ok k (e # es) =
     (if is_run e
      then (if ok k then True else filter is_sleep es = [])
           \<and> no_pause_after_failure ok (Suc k) es
      else no_pause_after_failure ok k es)"

text \<open>\<^verbatim>\<open>isinstance(v, int)\<close>\<close>

definition py_is_int :: "pyval \<Rightarrow> bool" where
  "py_is_int v = (case v of PyInt n \<Rightarrow> True | PyBool b \<Rightarrow> True | _ \<Rightarrow> False)"

fun is_raised :: "input \<Rightarrow> bool" where
  "is_raised (Raised e) = True"
| "is_raised inp = False"

fun is_subscribe :: "event \<Rightarrow> bool" where
  "is_subscribe (Subscribe t) = True"
| "is_subscribe e = False"

text \<open>The script has not ended.\<close>

definition running :: "sys \<Rightarrow> bool" where
  "running s = (case pc s of Exited \<Rightarrow> False | Crashed e \<Rightarrow> False | _ \<Rightarrow> True)"

fun is_connect :: "event \<Rightarrow> bool" where
  "is_connect (Connect h p k) = True"
| "is_connect e = False"

subsection \<open>A concrete environment for the examples\<close>

text \<open>
  The library's answers on the payloads of the examples, and on no other. An ASCII
  payload is UTF-8 text and decodes to itself. \<open>utf16_object\<close> is the empty object
  \<^verbatim>\<open>{}\<close> in UTF-16 with a byte order mark, the bytes \<^verbatim>\<open>ff fe 7b 00 7d 00\<close>: it is not
  UTF-8, and \<^verbatim>\<open>json.loads\<close>, which detects the encoding, returns the empty dict for it.
  The table gives the value \<^verbatim>\<open>json.loads\<close> returns for each JSON text used;
  \<^verbatim>\<open>not valid json\<close> is no JSON text. The helper's outcomes are listed in the order of
  the invocations.
\<close>

definition utf16_object :: string where
  "utf16_object = [CHR 0xFF, CHR 0xFE, CHR 0x7B, CHR 0x00, CHR 0x7D, CHR 0x00]"

definition example_decode :: "string \<Rightarrow> exc + string" where
  "example_decode b =
     (if list_all (\<lambda>c. (of_char c :: nat) < 128) b then Inr b
      else if b = utf16_object then Inl UnicodeDecodeError
      else Inl (OtherError ''not a payload of the examples''))"

definition example_mac :: string where
  "example_mac = ''AA:BB:CC:DD:EE:FF''"

definition example_json :: "(string \<times> pyval) list" where
  \<open>example_json =
     [(''123'', PyInt 123),
      (''{"mac": "AA:BB:CC:DD:EE:FF"}'', PyDict [(''mac'', PyStr example_mac)]),
      (''{"mac": "AA:BB:CC:DD:EE:FF", "repeat": "2"}'',
         PyDict [(''mac'', PyStr example_mac), (''repeat'', PyStr ''2'')]),
      (''{"mac": "AA:BB:CC:DD:EE:FF", "repeat": 1}'',
         PyDict [(''mac'', PyStr example_mac), (''repeat'', PyInt 1)]),
      (''{"repeat": "2"}'', PyDict [(''repeat'', PyStr ''2'')]),
      (''{"ip": "10.0.0.5", "repeat": 1}'',
         PyDict [(''ip'', PyStr ''10.0.0.5''), (''repeat'', PyInt 1)]),
      (utf16_object, PyDict [])]\<close>

definition example_loads :: "string \<Rightarrow> exc + pyval" where
  "example_loads b =
     (case map_of example_json b of
        Some v \<Rightarrow> Inr v
      | None \<Rightarrow> if b = ''not valid json'' then Inl JSONDecodeError
                else Inl (OtherError ''not a payload of the examples''))"

definition example_env :: "proc_outcome list \<Rightarrow> env" where
  "example_env outcomes =
     \<lparr>decode_utf8 = example_decode,
      json_loads = example_loads,
      repr_other = (\<lambda>v. []),
      run_helper = (\<lambda>k argv. if k < length outcomes then outcomes ! k
                               else ProcRaised (OtherError ''no outcome listed''))\<rparr>"

text \<open>What \<^verbatim>\<open>wakeonlan\<close> prints when it has sent a packet, and a run that prints nothing
  on standard output.\<close>

definition sent :: proc_outcome where
  "sent = Completed 0 ''Sending magic packet to 255.255.255.255:9 with AA:BB:CC:DD:EE:FF'' []"

definition failed :: proc_outcome where
  "failed = Completed 1 [] (''no route to host'' @ [CHR 0x0A])"

definition example_cfg :: config where
  "example_cfg =
     \<lparr>update_interval = 60, mqtt_broker = ''mqtt.local'', mqtt_port = 1883,
      mqtt_user = ''mqtt'', mqtt_password = ''password''\<rparr>"

definition command :: "string \<Rightarrow> mqtt_msg" where
  "command p = \<lparr>topic = ''wol/command'', payload = p\<rparr>"

section \<open>Properties\<close>

subsection \<open>Counting events, reading dicts\<close>


lemma n_runs_append [simp]: "n_runs (xs @ ys) = n_runs xs + n_runs ys"
  by (simp add: n_runs_def)

lemma n_runs_Cons [simp]: "n_runs (e # es) = (if is_run e then 1 else 0) + n_runs es"
  by (simp add: n_runs_def)

lemma n_runs_Nil [simp]: "n_runs [] = 0"
  by (simp add: n_runs_def)

lemma n_sleeps_append [simp]: "n_sleeps (xs @ ys) = n_sleeps xs + n_sleeps ys"
  by (simp add: n_sleeps_def)

lemma n_sleeps_Cons [simp]: "n_sleeps (e # es) = (if is_sleep e then 1 else 0) + n_sleeps es"
  by (simp add: n_sleeps_def)

lemma n_sleeps_Nil [simp]: "n_sleeps [] = 0"
  by (simp add: n_sleeps_def)

lemma py_in_dict: "py_in key (PyDict kvs) = Inr (map_of kvs key \<noteq> None)"
  by (simp add: py_in_def map_of_eq_None_iff)

lemma get_or_dict:
  "get_or (PyDict kvs) key dflt = Inr (case map_of kvs key of None \<Rightarrow> dflt | Some v \<Rightarrow> v)"
  by (auto simp: get_or_def py_in_dict py_getitem_def split: option.splits)

subsection \<open>The loop and its list of events\<close>

lemma wakeup_loop_done: "n \<le> i \<Longrightarrow> wakeup_loop en mac ip n i tr = (Inr (), tr)"
  by (simp add: wakeup_loop.simps)

lemma wakeup_loop_events:
  "snd (wakeup_loop en mac ip n i tr) = tr @ loop_events en mac ip (n_runs tr) (nat (n - i))"
proof (induction en mac ip n i tr rule: wakeup_loop.induct)
  case (1 en mac ip n i tr)
  show ?case
  proof (cases "i < n")
    case False
    then show ?thesis by (simp add: wakeup_loop.simps)
  next
    case True
    then have m: "nat (n - i) = Suc (nat (n - (i + 1)))" by simp
    have z: "0 < nat (n - (i + 1)) \<longleftrightarrow> i < n - 1" by auto
    show ?thesis
    proof (cases "subprocess_run en (n_runs tr) (helper_args mac ip)")
      case (ProcRaised e)
      then show ?thesis
        using True by (subst wakeup_loop.simps) (simp add: send_wol_def m loop_events.simps(2))
    next
      case (Completed rc out err)
      show ?thesis
      proof (cases "py_in_str ''magic packet'' out")
        case False
        then show ?thesis
          using True Completed
          by (subst wakeup_loop.simps) (simp add: send_wol_def m loop_events.simps(2))
      next
        case ok: True
        have sw: "send_wol en mac ip tr = (Inr True, tr @ [Run (helper_args mac ip)])"
          using Completed ok by (simp add: send_wol_def)
        have ih: "snd (wakeup_loop en mac ip n (i + 1)
                    (if i < n - 1 then (tr @ [Run (helper_args mac ip)]) @ [Sleep 1]
                     else tr @ [Run (helper_args mac ip)])) =
                  (if i < n - 1 then (tr @ [Run (helper_args mac ip)]) @ [Sleep 1]
                     else tr @ [Run (helper_args mac ip)]) @
                  loop_events en mac ip (Suc (n_runs tr)) (nat (n - (i + 1)))"
          using "1.IH" [OF True sw [symmetric] refl] by (simp split: if_splits)
        show ?thesis
          using True Completed ok ih z
          by (subst wakeup_loop.simps) (simp add: sw m loop_events.simps(2))
      qed
    qed
  qed
qed


lemma loop_events_fail:
  "\<not> send_ok en mac ip k \<Longrightarrow>
     n_runs (loop_events en mac ip k (Suc m)) = 1 \<and>
     filter is_sleep (loop_events en mac ip k (Suc m)) = []"
  by (cases "subprocess_run en k (helper_args mac ip)") (simp_all add: send_ok_def loop_events.simps(2))

lemma loop_events_ok:
  "send_ok en mac ip k \<Longrightarrow>
     loop_events en mac ip k (Suc m) =
       Run (helper_args mac ip) # (if 0 < m then [Sleep 1] else []) @ loop_events en mac ip (Suc k) m"
  by (cases "subprocess_run en k (helper_args mac ip)") (simp_all add: send_ok_def loop_events.simps(2))

lemma loop_events_runs_le: "n_runs (loop_events en mac ip k m) \<le> m"
proof (induction m arbitrary: k)
  case 0
  show ?case by simp
next
  case (Suc m)
  show ?case
  proof (cases "send_ok en mac ip k")
    case True
    then show ?thesis using Suc [of "Suc k"] by (simp add: loop_events_ok)
  next
    case False
    then show ?thesis using loop_events_fail [OF False, of m] by simp
  qed
qed

lemma loop_events_fewer:
  "n_runs (loop_events en mac ip k m) < m \<longleftrightarrow> (\<exists>j. j + 1 < m \<and> \<not> send_ok en mac ip (k + j))"
proof (induction m arbitrary: k)
  case 0
  show ?case by simp
next
  case (Suc m)
  show ?case
  proof (cases "send_ok en mac ip k")
    case False
    have "n_runs (loop_events en mac ip k (Suc m)) = 1"
      using loop_events_fail [OF False] by simp
    moreover have "(\<exists>j. j + 1 < Suc m \<and> \<not> send_ok en mac ip (k + j)) \<longleftrightarrow> 0 < m"
      using False by (auto intro: exI [of _ 0])
    ultimately show ?thesis by auto
  next
    case True
    have "n_runs (loop_events en mac ip k (Suc m)) = Suc (n_runs (loop_events en mac ip (Suc k) m))"
      using True by (simp add: loop_events_ok)
    moreover have "(\<exists>j. j + 1 < Suc m \<and> \<not> send_ok en mac ip (k + j)) \<longleftrightarrow>
                   (\<exists>j. j + 1 < m \<and> \<not> send_ok en mac ip (Suc k + j))"
    proof
      assume "\<exists>j. j + 1 < Suc m \<and> \<not> send_ok en mac ip (k + j)"
      then obtain j where j: "j + 1 < Suc m" "\<not> send_ok en mac ip (k + j)" by blast
      with True have "j \<noteq> 0" by (cases j) auto
      then obtain j' where "j = Suc j'" by (cases j) auto
      with j show "\<exists>j. j + 1 < m \<and> \<not> send_ok en mac ip (Suc k + j)"
        by (intro exI [of _ j']) simp
    next
      assume "\<exists>j. j + 1 < m \<and> \<not> send_ok en mac ip (Suc k + j)"
      then obtain j where "j + 1 < m" "\<not> send_ok en mac ip (Suc k + j)" by blast
      then show "\<exists>j. j + 1 < Suc m \<and> \<not> send_ok en mac ip (k + j)"
        by (intro exI [of _ "Suc j"]) simp
    qed
    ultimately show ?thesis using Suc [of "Suc k"] by simp
  qed
qed

lemma first_failure:
  "(\<exists>j. j + 1 < m \<and> \<not> P (j::nat)) \<longleftrightarrow> (\<exists>j. j + 1 < m \<and> \<not> P j \<and> (\<forall>i<j. P i))"
proof
  assume "\<exists>j. j + 1 < m \<and> \<not> P j"
  then obtain j where j: "j + 1 < m" "\<not> P j" by blast
  define l where "l = (LEAST x. \<not> P x)"
  have "\<not> P l" unfolding l_def using j(2) by (rule LeastI [of "\<lambda>x. \<not> P x"])
  moreover have "l \<le> j" unfolding l_def using j(2) by (rule Least_le [of "\<lambda>x. \<not> P x"])
  moreover have "\<forall>i<l. P i" unfolding l_def using not_less_Least by blast
  ultimately show "\<exists>j. j + 1 < m \<and> \<not> P j \<and> (\<forall>i<j. P i)"
    using j(1) by (intro exI [of _ l]) simp
qed blast

lemma loop_events_all_ok:
  "(\<forall>j<m. send_ok en mac ip (k + j)) \<Longrightarrow>
     n_runs (loop_events en mac ip k m) = m \<and> n_sleeps (loop_events en mac ip k m) = m - 1"
proof (induction m arbitrary: k)
  case 0
  show ?case by simp
next
  case (Suc m)
  have ok: "send_ok en mac ip k" using Suc.prems [rule_format, of 0] by simp
  have "\<forall>j<m. send_ok en mac ip (Suc k + j)"
    using Suc.prems by (auto dest: spec [of _ "Suc j" for j])
  from Suc.IH [OF this] show ?case
    by (simp add: loop_events_ok [OF ok])
qed

lemma loop_events_first_failure:
  "j < m \<Longrightarrow> \<not> send_ok en mac ip (k + j) \<Longrightarrow> (\<forall>i<j. send_ok en mac ip (k + i)) \<Longrightarrow>
     n_runs (loop_events en mac ip k m) = Suc j"
proof (induction m arbitrary: k j)
  case 0
  then show ?case by simp
next
  case (Suc m)
  show ?case
  proof (cases j)
    case 0
    with Suc.prems(2) have "\<not> send_ok en mac ip k" by simp
    from loop_events_fail [OF this, of m] show ?thesis using 0 by simp
  next
    case (Suc j')
    have ok: "send_ok en mac ip k"
      using Suc.prems(3) [rule_format, of 0] Suc by simp
    have lt: "j' < m" using Suc.prems(1) Suc by simp
    have bad: "\<not> send_ok en mac ip (Suc k + j')" using Suc.prems(2) Suc by simp
    have good: "\<forall>i<j'. send_ok en mac ip (Suc k + i)"
    proof (intro allI impI)
      fix i assume "i < j'"
      then have "Suc i < j" using Suc by simp
      from Suc.prems(3) [rule_format, OF this] show "send_ok en mac ip (Suc k + i)" by simp
    qed
    have "n_runs (loop_events en mac ip (Suc k) m) = Suc j'"
      using lt bad good by (rule Suc.IH)
    then show ?thesis using Suc by (simp add: loop_events_ok [OF ok])
  qed
qed

lemma loop_events_head:
  "0 < m \<Longrightarrow> \<exists>es. loop_events en mac ip k m = Run (helper_args mac ip) # es"
  by (cases m) (simp_all add: loop_events.simps(2))

lemma loop_events_paced: "paced prev (loop_events en mac ip k m)"
proof (induction m arbitrary: k prev)
  case 0
  show ?case by simp
next
  case (Suc m)
  show ?case
  proof (cases "send_ok en mac ip k")
    case False
    then show ?thesis
      by (cases "subprocess_run en k (helper_args mac ip)") (simp_all add: send_ok_def loop_events.simps(2))
  next
    case True
    show ?thesis
    proof (cases "0 < m")
      case False
      then show ?thesis using True by (simp add: loop_events_ok)
    next
      case pos: True
      obtain es where es: "loop_events en mac ip (Suc k) m = Run (helper_args mac ip) # es"
        using loop_events_head [OF pos] by blast
      have "paced (Sleep 1) (loop_events en mac ip (Suc k) m)" by (rule Suc.IH)
      then show ?thesis using True pos es by (simp add: loop_events_ok)
    qed
  qed
qed

lemma loop_events_no_pause_after_failure:
  "no_pause_after_failure (send_ok en mac ip) k (loop_events en mac ip k m)"
proof (induction m arbitrary: k)
  case 0
  show ?case by simp
next
  case (Suc m)
  show ?case
  proof (cases "send_ok en mac ip k")
    case False
    then show ?thesis
      by (cases "subprocess_run en k (helper_args mac ip)") (simp_all add: send_ok_def loop_events.simps(2))
  next
    case True
    then show ?thesis using Suc [of "Suc k"] by (simp add: loop_events_ok)
  qed
qed

lemma wakeup_loop_all_ok:
  "(\<forall>j<nat (n - i). send_ok en mac ip (n_runs tr + j)) \<Longrightarrow>
     fst (wakeup_loop en mac ip n i tr) = Inr ()"
proof (induction en mac ip n i tr rule: wakeup_loop.induct)
  case (1 en mac ip n i tr)
  show ?case
  proof (cases "i < n")
    case False
    then show ?thesis by (simp add: wakeup_loop.simps)
  next
    case True
    then have m: "nat (n - i) = Suc (nat (n - (i + 1)))" by simp
    have ok: "send_ok en mac ip (n_runs tr)" using "1.prems" [rule_format, of 0] True by simp
    then obtain rc out err where
      c: "subprocess_run en (n_runs tr) (helper_args mac ip) = Completed rc out err"
      and p: "py_in_str ''magic packet'' out"
      by (cases "subprocess_run en (n_runs tr) (helper_args mac ip)") (simp_all add: send_ok_def loop_events.simps(2))
    have sw: "send_wol en mac ip tr = (Inr True, tr @ [Run (helper_args mac ip)])"
      using c p by (simp add: send_wol_def)
    let ?tr' = "if i < n - 1 then (tr @ [Run (helper_args mac ip)]) @ [Sleep 1]
                else tr @ [Run (helper_args mac ip)]"
    have nr: "n_runs ?tr' = Suc (n_runs tr)" by simp
    have "\<forall>j<nat (n - (i + 1)). send_ok en mac ip (n_runs ?tr' + j)"
    proof (intro allI impI)
      fix j assume "j < nat (n - (i + 1))"
      then have "Suc j < nat (n - i)" using m by simp
      from "1.prems" [rule_format, OF this] show "send_ok en mac ip (n_runs ?tr' + j)"
        by (simp only: nr) simp
    qed
    from "1.IH" [OF True sw [symmetric] refl _ this]
    have "fst (wakeup_loop en mac ip n (i + 1) ?tr') = Inr ()" by simp
    then show ?thesis using True by (subst wakeup_loop.simps) (simp add: sw)
  qed
qed


lemma wakeup_int:
  "wakeup en mac ip (PyInt n) tr =
     wakeup_loop en mac ip n 0 (tr @ [Log INFO (announcement en mac ip (PyInt n))])"
  by (simp add: wakeup_def py_index_def)

lemma on_message_dict:
  assumes "decode_utf8 en (payload msg) = Inr text"
    and "json_loads en (payload msg) = Inr (PyDict kvs)"
  shows "on_message en msg tr =
           except_JSONDecodeError text
             (case map_of kvs ''mac'' of
                Some mac \<Rightarrow>
                  wakeup en mac
                    (case map_of kvs ''ip'' of None \<Rightarrow> PyNone | Some v \<Rightarrow> v)
                    (case map_of kvs ''repeat'' of None \<Rightarrow> PyInt 2 | Some v \<Rightarrow> v)
                    (tr @ [Log DEBUG (''MQTT: Message '' @ topic msg @ '' = '' @ text)])
              | None \<Rightarrow>
                  (Inr (), tr @ [Log DEBUG (''MQTT: Message '' @ topic msg @ '' = '' @ text),
                                Log ERROR (''No '' @ quote @ ''mac'' @ quote
                                  @ '' provided in payload: '' @ quote @ text @ quote)]))"
  using assms
  by (simp add: on_message_def on_message_body_def get_or_dict py_in_dict py_getitem_def
           split: option.splits)


lemma except_returned: "fst r = Inr () \<Longrightarrow> except_JSONDecodeError raw r = r"
  by (cases r) (auto simp: except_JSONDecodeError_def)

subsection \<open>The example environment, evaluated\<close>

lemma example_decode_ascii:
  "list_all (\<lambda>c. (of_char c :: nat) < 128) b \<Longrightarrow> decode_utf8 (example_env os) b = Inr b"
  by (simp add: example_env_def example_decode_def)

lemma example_env_loads: "json_loads (example_env os) b = example_loads b"
  by (simp add: example_env_def)

lemma example_loads_values:
  \<open>example_loads ''not valid json'' = Inl JSONDecodeError\<close>
  \<open>example_loads ''123'' = Inr (PyInt 123)\<close>
  \<open>example_loads ''{"mac": "AA:BB:CC:DD:EE:FF"}'' = Inr (PyDict [(''mac'', PyStr example_mac)])\<close>
  \<open>example_loads ''{"mac": "AA:BB:CC:DD:EE:FF", "repeat": "2"}'' =
     Inr (PyDict [(''mac'', PyStr example_mac), (''repeat'', PyStr ''2'')])\<close>
  \<open>example_loads ''{"mac": "AA:BB:CC:DD:EE:FF", "repeat": 1}'' =
     Inr (PyDict [(''mac'', PyStr example_mac), (''repeat'', PyInt 1)])\<close>
  \<open>example_loads ''{"repeat": "2"}'' = Inr (PyDict [(''repeat'', PyStr ''2'')])\<close>
  \<open>example_loads ''{"ip": "10.0.0.5", "repeat": 1}'' =
     Inr (PyDict [(''ip'', PyStr ''10.0.0.5''), (''repeat'', PyInt 1)])\<close>
  \<open>example_loads utf16_object = Inr (PyDict [])\<close>
  by (simp_all add: example_loads_def example_json_def utf16_object_def)

lemma example_env_run:
  "subprocess_run (example_env os) k (helper_args (PyStr example_mac) PyNone) =
     (if k < length os then os ! k else ProcRaised (OtherError ''no outcome listed''))"
  by (simp add: subprocess_run_def helper_args_def example_env_def)

lemma example_announcement:
  "announcement (example_env os) (PyStr example_mac) PyNone (PyInt 3) =
     ''Sending WoL (x3 to AA:BB:CC:DD:EE:FF''"
  "announcement (example_env os) (PyStr example_mac) PyNone (PyInt 2) =
     ''Sending WoL (x2 to AA:BB:CC:DD:EE:FF''"
  "announcement (example_env os) (PyStr example_mac) PyNone (PyInt 0) =
     ''Sending WoL (x0 to AA:BB:CC:DD:EE:FF''"
  "announcement (example_env os) (PyStr example_mac) PyNone (PyStr ''2'') =
     ''Sending WoL (x2 to AA:BB:CC:DD:EE:FF''"
  by (simp_all add: announcement_def format_value_def str_int_def str_nat.simps example_mac_def)

lemma example_wakeup_once:
  "n_runs tr = 0 \<Longrightarrow>
     fst (wakeup (example_env [sent]) (PyStr example_mac) PyNone (PyInt 1) tr) = Inr ()"
  by (simp add: wakeup_int wakeup_loop.simps send_wol_def example_env_run sent_def)

lemma strip_example: "py_strip (''no route to host'' @ [CHR 0x0A]) = ''no route to host''"
  by (simp add: py_strip_def py_isspace_def)

subsection \<open>Packet sender\<close>




subsection \<open>Command decoder\<close>

text \<open>
  C2 (as amended). For every payload that is UTF-8 text and that \<^verbatim>\<open>json.loads\<close> rejects
  with \<^verbatim>\<open>JSONDecodeError\<close>, \<^verbatim>\<open>on_message\<close> logs the payload at error severity after
  the debug line and returns without raising; the helper is not invoked.
\<close>

theorem on_message_malformed_json:
  assumes "decode_utf8 en (payload msg) = Inr text"
    and "json_loads en (payload msg) = Inl JSONDecodeError"
  shows "on_message en msg tr =
           (Inr (), tr @ [Log DEBUG (''MQTT: Message '' @ topic msg @ '' = '' @ text),
                         Log ERROR (''Malformed JSON payload: '' @ quote @ text @ quote)])"
  using assms
  by (simp add: on_message_def on_message_body_def except_JSONDecodeError_def)

theorem on_message_malformed_json_witness:
  "decode_utf8 (example_env []) (payload (command ''not valid json'')) = Inr ''not valid json''
   \<and> json_loads (example_env []) (payload (command ''not valid json'')) = Inl JSONDecodeError
   \<and> on_message (example_env []) (command ''not valid json'') [] =
       (Inr (), [Log DEBUG ''MQTT: Message wol/command = not valid json'',
                 Log ERROR (''Malformed JSON payload: '' @ quote @ ''not valid json'' @ quote)])"
proof -
  have d: "decode_utf8 (example_env []) (payload (command ''not valid json'')) = Inr ''not valid json''"
    by (simp add: command_def example_decode_ascii)
  have j: "json_loads (example_env []) (payload (command ''not valid json'')) = Inl JSONDecodeError"
    by (simp add: command_def example_env_loads example_loads_values)
  show ?thesis
    using on_message_malformed_json [OF d j, of "[]"] d j by (simp add: command_def)
qed

text \<open>
  C2 as stated fails on a payload that is JSON but not an object: for the payload
  \<^verbatim>\<open>123\<close>, \<^verbatim>\<open>json.loads\<close> returns the integer 123, \<^verbatim>\<open>'ip' in data\<close> raises
  \<^verbatim>\<open>TypeError\<close>, the handler catches only \<^verbatim>\<open>JSONDecodeError\<close>, and the exception
  reaches the caller with no error line logged.
\<close>

theorem on_message_json_number_raises:
  "on_message (example_env []) (command ''123'') [] =
     (Inl TypeError, [Log DEBUG ''MQTT: Message wol/command = 123''])"
  by (simp add: on_message_def on_message_body_def except_JSONDecodeError_def command_def
        example_decode_ascii example_env_loads example_loads_values
        get_or_def py_in_def)

text \<open>
  C4 (as amended). For every payload that is UTF-8 text, parses as an object and has no
  \<^verbatim>\<open>mac\<close> field, \<^verbatim>\<open>on_message\<close> logs the payload at error severity and returns without
  raising, and the helper is not invoked: \<^verbatim>\<open>wakeup\<close> is not reached.
\<close>

theorem on_message_missing_mac:
  assumes "decode_utf8 en (payload msg) = Inr text"
    and "json_loads en (payload msg) = Inr (PyDict kvs)"
    and "map_of kvs ''mac'' = None"
  shows "on_message en msg tr =
           (Inr (), tr @ [Log DEBUG (''MQTT: Message '' @ topic msg @ '' = '' @ text),
                         Log ERROR (''No '' @ quote @ ''mac'' @ quote
                           @ '' provided in payload: '' @ quote @ text @ quote)])
         \<and> n_runs (snd (on_message en msg tr)) = n_runs tr"
  using assms by (simp add: on_message_dict except_JSONDecodeError_def)

theorem on_message_missing_mac_witness:
  \<open>decode_utf8 (example_env []) (payload (command ''{"ip": "10.0.0.5", "repeat": 1}''))
     = Inr ''{"ip": "10.0.0.5", "repeat": 1}''
   \<and> json_loads (example_env []) (payload (command ''{"ip": "10.0.0.5", "repeat": 1}''))
     = Inr (PyDict [(''ip'', PyStr ''10.0.0.5''), (''repeat'', PyInt 1)])
   \<and> map_of [(''ip'', PyStr ''10.0.0.5''), (''repeat'', PyInt 1)] ''mac'' = None
   \<and> on_message (example_env []) (command ''{"ip": "10.0.0.5", "repeat": 1}'') [] =
       (Inr (), [Log DEBUG ''MQTT: Message wol/command = {"ip": "10.0.0.5", "repeat": 1}'',
                 Log ERROR (''No '' @ quote @ ''mac'' @ quote @ '' provided in payload: ''
                   @ quote @ ''{"ip": "10.0.0.5", "repeat": 1}'' @ quote)])\<close>
proof -
  have d: \<open>decode_utf8 (example_env []) (payload (command ''{"ip": "10.0.0.5", "repeat": 1}''))
     = Inr ''{"ip": "10.0.0.5", "repeat": 1}''\<close>
    by (simp add: command_def example_decode_ascii)
  have j: \<open>json_loads (example_env []) (payload (command ''{"ip": "10.0.0.5", "repeat": 1}''))
     = Inr (PyDict [(''ip'', PyStr ''10.0.0.5''), (''repeat'', PyInt 1)])\<close>
    by (simp add: command_def example_env_loads example_loads_values)
  have m: "map_of [(''ip'', PyStr ''10.0.0.5''), (''repeat'', PyInt 1)] ''mac'' = None"
    by simp
  show ?thesis
    using on_message_missing_mac [OF d j m, of "[]"] d j m by (simp add: command_def)
qed

text \<open>
  C4 as stated fails on a payload that parses as an object without being UTF-8: for
  the empty object in UTF-16 the first statement of the handler, which decodes the
  payload as UTF-8 for the debug line, raises \<^verbatim>\<open>UnicodeDecodeError\<close> outside the
  \<^verbatim>\<open>try\<close> block.
\<close>

theorem on_message_utf16_object_raises:
  "json_loads (example_env []) (payload (command utf16_object)) = Inr (PyDict [])
   \<and> map_of ([] :: (string \<times> pyval) list) ''mac'' = None
   \<and> on_message (example_env []) (command utf16_object) [] = (Inl UnicodeDecodeError, [])"
  by (simp add: on_message_def command_def example_env_loads example_loads_values)
     (simp add: example_env_def example_decode_def utf16_object_def)

text \<open>
  C10 (as amended). For a payload that parses as an object and has a \<^verbatim>\<open>mac\<close> field,
  \<^verbatim>\<open>on_message\<close> returns without raising only if \<^verbatim>\<open>repeat\<close>, when present, is an
  integer (a boolean included, \<^verbatim>\<open>bool\<close> being a subclass of \<^verbatim>\<open>int\<close>). Otherwise, the
  payload being UTF-8 text, \<^verbatim>\<open>range(count)\<close> raises \<^verbatim>\<open>TypeError\<close> once the debug and
  info lines are logged and before any send, and the exception leaves the handler.
\<close>

theorem on_message_repeat_not_int:
  assumes "json_loads en (payload msg) = Inr (PyDict kvs)"
    and "map_of kvs ''mac'' = Some mac"
    and "map_of kvs ''repeat'' = Some r"
  shows "(fst (on_message en msg tr) = Inr () \<longrightarrow> py_is_int r)
         \<and> (decode_utf8 en (payload msg) = Inr raw \<and> \<not> py_is_int r \<longrightarrow>
              on_message en msg tr =
                (Inl TypeError,
                 tr @ [Log DEBUG (''MQTT: Message '' @ topic msg @ '' = '' @ raw),
                       Log INFO (announcement en mac
                                  (case map_of kvs ''ip'' of None \<Rightarrow> PyNone | Some v \<Rightarrow> v) r)]))"
proof -
  have raises: "on_message en msg tr =
                (Inl TypeError,
                 tr @ [Log DEBUG (''MQTT: Message '' @ topic msg @ '' = '' @ x),
                       Log INFO (announcement en mac
                                  (case map_of kvs ''ip'' of None \<Rightarrow> PyNone | Some v \<Rightarrow> v) r)])"
    if d: "decode_utf8 en (payload msg) = Inr x" and n: "\<not> py_is_int r" for x
  proof -
    have "py_index r = Inl TypeError"
      using n by (cases r) (simp_all add: py_index_def py_is_int_def)
    then show ?thesis
      using assms d by (simp add: on_message_dict wakeup_def except_JSONDecodeError_def)
  qed
  have "py_is_int r" if ok: "fst (on_message en msg tr) = Inr ()"
  proof (rule ccontr)
    assume n: "\<not> py_is_int r"
    show False
    proof (cases "decode_utf8 en (payload msg)")
      case (Inl e)
      then show False using ok by (simp add: on_message_def)
    next
      case (Inr x)
      from raises [OF Inr n] ok show False by simp
    qed
  qed
  then show ?thesis using raises by blast
qed

theorem on_message_repeat_not_int_witness:
  \<open>json_loads (example_env []) (payload (command ''{"mac": "AA:BB:CC:DD:EE:FF", "repeat": "2"}''))
     = Inr (PyDict [(''mac'', PyStr example_mac), (''repeat'', PyStr ''2'')])
   \<and> map_of [(''mac'', PyStr example_mac), (''repeat'', PyStr ''2'')] ''mac'' = Some (PyStr example_mac)
   \<and> map_of [(''mac'', PyStr example_mac), (''repeat'', PyStr ''2'')] ''repeat'' = Some (PyStr ''2'')
   \<and> decode_utf8 (example_env []) (payload (command ''{"mac": "AA:BB:CC:DD:EE:FF", "repeat": "2"}''))
     = Inr ''{"mac": "AA:BB:CC:DD:EE:FF", "repeat": "2"}''
   \<and> \<not> py_is_int (PyStr ''2'')
   \<and> on_message (example_env []) (command ''{"mac": "AA:BB:CC:DD:EE:FF", "repeat": "2"}'') [] =
       (Inl TypeError,
        [Log DEBUG ''MQTT: Message wol/command = {"mac": "AA:BB:CC:DD:EE:FF", "repeat": "2"}'',
         Log INFO ''Sending WoL (x2 to AA:BB:CC:DD:EE:FF''])
   \<and> json_loads (example_env [sent]) (payload (command ''{"mac": "AA:BB:CC:DD:EE:FF", "repeat": 1}''))
     = Inr (PyDict [(''mac'', PyStr example_mac), (''repeat'', PyInt 1)])
   \<and> fst (on_message (example_env [sent]) (command ''{"mac": "AA:BB:CC:DD:EE:FF", "repeat": 1}'') [])
     = Inr ()
   \<and> py_is_int (PyInt 1)\<close>
proof -
  let ?p = \<open>''{"mac": "AA:BB:CC:DD:EE:FF", "repeat": "2"}''\<close>
  let ?q = \<open>''{"mac": "AA:BB:CC:DD:EE:FF", "repeat": 1}''\<close>
  have d: "decode_utf8 (example_env []) (payload (command ?p)) = Inr ?p"
    by (simp add: command_def example_decode_ascii)
  have j: "json_loads (example_env []) (payload (command ?p))
             = Inr (PyDict [(''mac'', PyStr example_mac), (''repeat'', PyStr ''2'')])"
    by (simp add: command_def example_env_loads example_loads_values)
  have m: "map_of [(''mac'', PyStr example_mac), (''repeat'', PyStr ''2'')] ''mac'' = Some (PyStr example_mac)"
    by simp
  have r: "map_of [(''mac'', PyStr example_mac), (''repeat'', PyStr ''2'')] ''repeat'' = Some (PyStr ''2'')"
    by simp
  have i: "\<not> py_is_int (PyStr ''2'')"
    by (simp add: py_is_int_def)
  have bad: \<open>on_message (example_env []) (command ?p) [] =
       (Inl TypeError,
        [Log DEBUG ''MQTT: Message wol/command = {"mac": "AA:BB:CC:DD:EE:FF", "repeat": "2"}'',
         Log INFO ''Sending WoL (x2 to AA:BB:CC:DD:EE:FF''])\<close>
    using on_message_repeat_not_int [OF j m r, of "[]" ?p] d i
    by (simp add: command_def example_announcement)
  have d': "decode_utf8 (example_env [sent]) (payload (command ?q)) = Inr ?q"
    by (simp add: command_def example_decode_ascii)
  have j': "json_loads (example_env [sent]) (payload (command ?q))
             = Inr (PyDict [(''mac'', PyStr example_mac), (''repeat'', PyInt 1)])"
    by (simp add: command_def example_env_loads example_loads_values)
  have m': "map_of [(''mac'', PyStr example_mac), (''repeat'', PyInt 1)] ''mac'' = Some (PyStr example_mac)"
    by simp
  have r': "map_of [(''mac'', PyStr example_mac), (''repeat'', PyInt 1)] ''repeat'' = Some (PyInt 1)"
    by simp
  have ok: "fst (on_message (example_env [sent]) (command ?q) []) = Inr ()"
    by (simp add: on_message_dict [OF d' j'] except_returned example_wakeup_once)
  have good: "py_is_int (PyInt 1)"
    using on_message_repeat_not_int [OF j' m' r', of "[]"] ok by blast
  show ?thesis
    using d j m r i bad j' ok good by simp
qed

text \<open>
  C10 as stated fails on an object without \<^verbatim>\<open>mac\<close>: for the payload
  \<^verbatim>\<open>{"repeat": "2"}\<close> the handler returns without raising although \<^verbatim>\<open>repeat\<close> is a
  string, as \<^verbatim>\<open>wakeup\<close> is not called.
\<close>

theorem on_message_no_mac_string_repeat:
  \<open>on_message (example_env []) (command ''{"repeat": "2"}'') [] =
     (Inr (), [Log DEBUG ''MQTT: Message wol/command = {"repeat": "2"}'',
               Log ERROR (''No '' @ quote @ ''mac'' @ quote @ '' provided in payload: ''
                 @ quote @ ''{"repeat": "2"}'' @ quote)])\<close>
  by (simp add: on_message_def on_message_body_def except_JSONDecodeError_def command_def
        example_decode_ascii example_env_loads example_loads_values
        get_or_def py_in_def py_getitem_def)

subsection \<open>Wakeup orchestrator\<close>

lemma example_wakeup_second_fails:
  "wakeup (example_env [sent, failed, sent]) (PyStr example_mac) PyNone (PyInt 3) [] =
     (Inr (),
      [Log INFO ''Sending WoL (x3 to AA:BB:CC:DD:EE:FF'',
       Run [PyStr ''wakeonlan'', PyStr example_mac], Sleep 1,
       Run [PyStr ''wakeonlan'', PyStr example_mac],
       Log ERROR (''Error sending WoL packet: '' @ quote @ ''no route to host'' @ quote)])"
  by (simp add: wakeup_int wakeup_loop.simps send_wol_def example_env_run sent_def failed_def
        example_announcement strip_example [simplified])
     (simp add: helper_args_def)

lemma example_send_ok:
  "send_ok (example_env (sent # os)) (PyStr example_mac) PyNone 0"
  "send_ok (example_env (a # sent # os)) (PyStr example_mac) PyNone (Suc 0)"
  "send_ok (example_env (a # b # sent # os)) (PyStr example_mac) PyNone 2"
  "\<not> send_ok (example_env (a # failed # os)) (PyStr example_mac) PyNone (Suc 0)"
  "\<not> send_ok (example_env (failed # os)) (PyStr example_mac) PyNone 0"
  by (simp_all add: send_ok_def example_env_run sent_def failed_def)

text \<open>
  C3. A wake request without \<^verbatim>\<open>repeat\<close> reaches \<^verbatim>\<open>wakeup\<close> with the count 2. With a count
  of 0 or less \<^verbatim>\<open>wakeup\<close> logs its announcement and returns, without a send and without
  an error. With a count \<open>n > 0\<close> the number of helper invocations is fixed by the first
  send that fails: when all \<open>n\<close> sends succeed there are \<open>n\<close> invocations; when send
  number \<open>j\<close> (counted from 0) is the first to fail there are exactly \<open>j + 1\<close>, the failed
  one being the last, so nothing is sent or retried after a failure. Hence there are
  at most \<open>n\<close> invocations, and fewer than \<open>n\<close> if and only if a send before the last
  fails.
\<close>

theorem wakeup_send_count:
  "(decode_utf8 en (payload msg) = Inr raw \<and>
    json_loads en (payload msg) = Inr (PyDict kvs) \<and>
    map_of kvs ''mac'' = Some mac \<and> map_of kvs ''repeat'' = None
      \<longrightarrow> on_message en msg tr =
            except_JSONDecodeError raw
              (wakeup en mac (case map_of kvs ''ip'' of None \<Rightarrow> PyNone | Some v \<Rightarrow> v) (PyInt 2)
                 (tr @ [Log DEBUG (''MQTT: Message '' @ topic msg @ '' = '' @ raw)])))
   \<and> (n \<le> 0 \<longrightarrow>
        wakeup en mac ip (PyInt n) tr =
          (Inr (), tr @ [Log INFO (announcement en mac ip (PyInt n))]))
   \<and> (0 < n \<longrightarrow>
        (\<exists>evs. snd (wakeup en mac ip (PyInt n) tr) = tr @ evs \<and>
           n_runs evs \<le> nat n \<and>
           ((\<forall>j<nat n. send_ok en mac ip (n_runs tr + j)) \<longrightarrow> n_runs evs = nat n) \<and>
           (\<forall>j. int j < n \<and> \<not> send_ok en mac ip (n_runs tr + j) \<and>
                (\<forall>i<j. send_ok en mac ip (n_runs tr + i)) \<longrightarrow> n_runs evs = j + 1) \<and>
           (n_runs evs < nat n \<longleftrightarrow>
              (\<exists>j. int j + 1 < n \<and> \<not> send_ok en mac ip (n_runs tr + j) \<and>
                   (\<forall>i<j. send_ok en mac ip (n_runs tr + i))))))"
proof (intro conjI impI)
  assume "decode_utf8 en (payload msg) = Inr raw \<and>
    json_loads en (payload msg) = Inr (PyDict kvs) \<and>
    map_of kvs ''mac'' = Some mac \<and> map_of kvs ''repeat'' = None"
  then show "on_message en msg tr =
            except_JSONDecodeError raw
              (wakeup en mac (case map_of kvs ''ip'' of None \<Rightarrow> PyNone | Some v \<Rightarrow> v) (PyInt 2)
                 (tr @ [Log DEBUG (''MQTT: Message '' @ topic msg @ '' = '' @ raw)]))"
    by (simp add: on_message_dict)
next
  assume "n \<le> 0"
  then show "wakeup en mac ip (PyInt n) tr =
          (Inr (), tr @ [Log INFO (announcement en mac ip (PyInt n))])"
    by (simp add: wakeup_int wakeup_loop_done)
next
  assume pos: "0 < n"
  let ?evs = "Log INFO (announcement en mac ip (PyInt n))
                # loop_events en mac ip (n_runs tr) (nat n)"
  have tr: "snd (wakeup en mac ip (PyInt n) tr) = tr @ ?evs"
    by (simp add: wakeup_int wakeup_loop_events)
  have runs: "n_runs ?evs = n_runs (loop_events en mac ip (n_runs tr) (nat n))" by simp
  have le: "n_runs ?evs \<le> nat n"
    unfolding runs by (rule loop_events_runs_le)
  have full: "(\<forall>j<nat n. send_ok en mac ip (n_runs tr + j)) \<longrightarrow> n_runs ?evs = nat n"
    unfolding runs using loop_events_all_ok by blast
  have stop: "\<forall>j. int j < n \<and> \<not> send_ok en mac ip (n_runs tr + j) \<and>
                (\<forall>i<j. send_ok en mac ip (n_runs tr + i)) \<longrightarrow> n_runs ?evs = j + 1"
  proof (intro allI impI)
    fix j
    assume h: "int j < n \<and> \<not> send_ok en mac ip (n_runs tr + j) \<and>
                (\<forall>i<j. send_ok en mac ip (n_runs tr + i))"
    then have "j < nat n" by linarith
    with h have "n_runs (loop_events en mac ip (n_runs tr) (nat n)) = Suc j"
      by (intro loop_events_first_failure) blast+
    then show "n_runs ?evs = j + 1" unfolding runs by simp
  qed
  have "n_runs ?evs < nat n \<longleftrightarrow> (\<exists>j. j + 1 < nat n \<and> \<not> send_ok en mac ip (n_runs tr + j))"
    unfolding runs by (rule loop_events_fewer)
  also have "\<dots> \<longleftrightarrow> (\<exists>j. j + 1 < nat n \<and> \<not> send_ok en mac ip (n_runs tr + j) \<and>
                   (\<forall>i<j. send_ok en mac ip (n_runs tr + i)))"
    by (rule first_failure)
  also have "\<dots> \<longleftrightarrow> (\<exists>j. int j + 1 < n \<and> \<not> send_ok en mac ip (n_runs tr + j) \<and>
                   (\<forall>i<j. send_ok en mac ip (n_runs tr + i)))"
  proof -
    have "\<And>j. j + 1 < nat n \<longleftrightarrow> int j + 1 < n" by linarith
    then show ?thesis by simp
  qed
  finally have fewer: "n_runs ?evs < nat n \<longleftrightarrow>
              (\<exists>j. int j + 1 < n \<and> \<not> send_ok en mac ip (n_runs tr + j) \<and>
                   (\<forall>i<j. send_ok en mac ip (n_runs tr + i)))" .
  show "\<exists>evs. snd (wakeup en mac ip (PyInt n) tr) = tr @ evs \<and>
           n_runs evs \<le> nat n \<and>
           ((\<forall>j<nat n. send_ok en mac ip (n_runs tr + j)) \<longrightarrow> n_runs evs = nat n) \<and>
           (\<forall>j. int j < n \<and> \<not> send_ok en mac ip (n_runs tr + j) \<and>
                (\<forall>i<j. send_ok en mac ip (n_runs tr + i)) \<longrightarrow> n_runs evs = j + 1) \<and>
           (n_runs evs < nat n \<longleftrightarrow>
              (\<exists>j. int j + 1 < n \<and> \<not> send_ok en mac ip (n_runs tr + j) \<and>
                   (\<forall>i<j. send_ok en mac ip (n_runs tr + i))))"
    using tr le full stop fewer by (intro exI [of _ ?evs]) blast
qed

theorem wakeup_send_count_witness:
  \<open>(decode_utf8 (example_env [sent, sent]) (payload (command ''{"mac": "AA:BB:CC:DD:EE:FF"}''))
      = Inr ''{"mac": "AA:BB:CC:DD:EE:FF"}''
    \<and> json_loads (example_env [sent, sent]) (payload (command ''{"mac": "AA:BB:CC:DD:EE:FF"}''))
      = Inr (PyDict [(''mac'', PyStr example_mac)])
    \<and> map_of [(''mac'', PyStr example_mac)] ''mac'' = Some (PyStr example_mac)
    \<and> map_of [(''mac'', PyStr example_mac)] ''repeat'' = None)
   \<and> on_message (example_env [sent, sent]) (command ''{"mac": "AA:BB:CC:DD:EE:FF"}'') [] =
       except_JSONDecodeError ''{"mac": "AA:BB:CC:DD:EE:FF"}''
         (wakeup (example_env [sent, sent]) (PyStr example_mac) PyNone (PyInt 2)
            [Log DEBUG ''MQTT: Message wol/command = {"mac": "AA:BB:CC:DD:EE:FF"}''])
   \<and> (0::int) \<le> 0
   \<and> wakeup (example_env []) (PyStr example_mac) PyNone (PyInt 0) [] =
       (Inr (), [Log INFO ''Sending WoL (x0 to AA:BB:CC:DD:EE:FF''])
   \<and> (0::int) < 3
   \<and> \<not> send_ok (example_env [failed, sent, sent]) (PyStr example_mac) PyNone 0
   \<and> n_runs (snd (wakeup (example_env [failed, sent, sent]) (PyStr example_mac) PyNone (PyInt 3) []))
       = 1
   \<and> send_ok (example_env [sent, sent, sent]) (PyStr example_mac) PyNone 0
   \<and> send_ok (example_env [sent, sent, sent]) (PyStr example_mac) PyNone 1
   \<and> send_ok (example_env [sent, sent, sent]) (PyStr example_mac) PyNone 2
   \<and> n_runs (snd (wakeup (example_env [sent, sent, sent]) (PyStr example_mac) PyNone (PyInt 3) []))
       = 3
   \<and> n_runs (snd (wakeup (example_env [sent, failed, sent]) (PyStr example_mac) PyNone (PyInt 3) []))
       = 2
   \<and> (n_runs (snd (wakeup (example_env [sent, failed, sent]) (PyStr example_mac) PyNone (PyInt 3) []))
         < nat 3 \<longleftrightarrow>
       (\<exists>j. int j + 1 < 3
          \<and> \<not> send_ok (example_env [sent, failed, sent]) (PyStr example_mac) PyNone (n_runs [] + j)
          \<and> (\<forall>i<j. send_ok (example_env [sent, failed, sent]) (PyStr example_mac) PyNone
                      (n_runs [] + i))))\<close>
proof -
  let ?p = \<open>''{"mac": "AA:BB:CC:DD:EE:FF"}''\<close>
  have d: "decode_utf8 (example_env [sent, sent]) (payload (command ?p)) = Inr ?p"
    by (simp add: command_def example_decode_ascii)
  have j: "json_loads (example_env [sent, sent]) (payload (command ?p))
             = Inr (PyDict [(''mac'', PyStr example_mac)])"
    by (simp add: command_def example_env_loads example_loads_values)
  have m: "map_of [(''mac'', PyStr example_mac)] ''mac'' = Some (PyStr example_mac)
           \<and> map_of [(''mac'', PyStr example_mac)] ''repeat'' = None"
    by simp
  have one: \<open>on_message (example_env [sent, sent]) (command ?p) [] =
       except_JSONDecodeError ?p
         (wakeup (example_env [sent, sent]) (PyStr example_mac) PyNone (PyInt 2)
            [Log DEBUG ''MQTT: Message wol/command = {"mac": "AA:BB:CC:DD:EE:FF"}''])\<close>
    using wakeup_send_count
            [where en = "example_env [sent, sent]" and msg = "command ?p" and raw = "?p"
               and kvs = "[(''mac'', PyStr example_mac)]" and mac = "PyStr example_mac"
               and tr = "[]"]
          d j m
    by (simp add: command_def)
  have two: "wakeup (example_env []) (PyStr example_mac) PyNone (PyInt 0) [] =
       (Inr (), [Log INFO ''Sending WoL (x0 to AA:BB:CC:DD:EE:FF''])"
    using wakeup_send_count
            [where en = "example_env []" and mac = "PyStr example_mac" and ip = PyNone
               and n = 0 and tr = "[]"]
    by (simp add: example_announcement)
  have f0: "\<not> send_ok (example_env [failed, sent, sent]) (PyStr example_mac) PyNone 0"
    by (rule example_send_ok)
  obtain evs where
    e: "snd (wakeup (example_env [failed, sent, sent]) (PyStr example_mac) PyNone (PyInt 3) []) = [] @ evs"
    and s: "\<forall>j. int j < 3 \<and> \<not> send_ok (example_env [failed, sent, sent]) (PyStr example_mac) PyNone
                  (n_runs [] + j) \<and>
                (\<forall>i<j. send_ok (example_env [failed, sent, sent]) (PyStr example_mac) PyNone
                  (n_runs [] + i)) \<longrightarrow> n_runs evs = j + 1"
    using wakeup_send_count
            [where en = "example_env [failed, sent, sent]" and mac = "PyStr example_mac"
               and ip = PyNone and n = 3 and tr = "[]"]
    by auto
  have stop: "n_runs (snd (wakeup (example_env [failed, sent, sent]) (PyStr example_mac) PyNone (PyInt 3) [])) = 1"
    using s [rule_format, of 0] f0 e by simp
  have ok: "send_ok (example_env [sent, sent, sent]) (PyStr example_mac) PyNone 0
            \<and> send_ok (example_env [sent, sent, sent]) (PyStr example_mac) PyNone 1
            \<and> send_ok (example_env [sent, sent, sent]) (PyStr example_mac) PyNone 2"
    by (simp add: example_send_ok)
  have all: "\<forall>j<nat 3. send_ok (example_env [sent, sent, sent]) (PyStr example_mac) PyNone (n_runs [] + j)"
  proof (intro allI impI)
    fix j :: nat
    assume "j < nat 3"
    then have "j = 0 \<or> j = 1 \<or> j = 2" by auto
    then show "send_ok (example_env [sent, sent, sent]) (PyStr example_mac) PyNone (n_runs [] + j)"
      using ok by auto
  qed
  obtain evs' where
    e': "snd (wakeup (example_env [sent, sent, sent]) (PyStr example_mac) PyNone (PyInt 3) []) = [] @ evs'"
    and a': "(\<forall>j<nat 3. send_ok (example_env [sent, sent, sent]) (PyStr example_mac) PyNone
                (n_runs [] + j)) \<longrightarrow> n_runs evs' = nat 3"
    using wakeup_send_count
            [where en = "example_env [sent, sent, sent]" and mac = "PyStr example_mac"
               and ip = PyNone and n = 3 and tr = "[]"]
    by auto
  have full: "n_runs (snd (wakeup (example_env [sent, sent, sent]) (PyStr example_mac) PyNone (PyInt 3) [])) = 3"
    using a' all e' by simp
  have three: "n_runs (snd (wakeup (example_env [sent, failed, sent]) (PyStr example_mac) PyNone (PyInt 3) []))
         < nat 3 \<longleftrightarrow>
       (\<exists>j. int j + 1 < 3
          \<and> \<not> send_ok (example_env [sent, failed, sent]) (PyStr example_mac) PyNone (n_runs [] + j)
          \<and> (\<forall>i<j. send_ok (example_env [sent, failed, sent]) (PyStr example_mac) PyNone
                      (n_runs [] + i)))"
    using wakeup_send_count
            [where en = "example_env [sent, failed, sent]" and mac = "PyStr example_mac"
               and ip = PyNone and n = 3 and tr = "[]"]
    by auto
  have runs: "n_runs (snd (wakeup (example_env [sent, failed, sent]) (PyStr example_mac) PyNone (PyInt 3) [])) = 2"
    by (simp add: example_wakeup_second_fails)
  show ?thesis
    using d j m one two f0 stop ok full three runs by simp
qed

text \<open>
  C5. In every run of \<^verbatim>\<open>wakeup\<close> each pause stands directly between two helper
  invocations, so none follows the last one, and none follows an invocation that is
  not a successful send. When the count is \<open>n > 0\<close> and all \<open>n\<close> sends succeed, there are
  \<open>n\<close> invocations and exactly \<open>n - 1\<close> pauses.
\<close>

theorem wakeup_pauses:
  "\<exists>evs. snd (wakeup en mac ip count tr) = tr @ evs \<and>
      pauses_between_sends evs \<and>
      no_pause_after_failure (send_ok en mac ip) (n_runs tr) evs \<and>
      (\<forall>n. count = PyInt n \<and> 0 < n \<and> (\<forall>j<nat n. send_ok en mac ip (n_runs tr + j)) \<longrightarrow>
         fst (wakeup en mac ip count tr) = Inr () \<and>
         n_runs evs = nat n \<and> n_sleeps evs = nat n - 1)"
proof -
  let ?loop = "case py_index count of Inl e \<Rightarrow> []
                | Inr n \<Rightarrow> loop_events en mac ip (n_runs tr) (nat n)"
  let ?evs = "Log INFO (announcement en mac ip count) # ?loop"
  have tr: "snd (wakeup en mac ip count tr) = tr @ ?evs"
    by (simp add: wakeup_def wakeup_loop_events split: sum.splits)
  have p: "pauses_between_sends ?evs"
    by (simp add: pauses_between_sends_def loop_events_paced split: sum.splits)
  have f: "no_pause_after_failure (send_ok en mac ip) (n_runs tr) ?evs"
    by (simp add: loop_events_no_pause_after_failure split: sum.splits)
  have a: "\<forall>n. count = PyInt n \<and> 0 < n \<and> (\<forall>j<nat n. send_ok en mac ip (n_runs tr + j)) \<longrightarrow>
         fst (wakeup en mac ip count tr) = Inr () \<and>
         n_runs ?evs = nat n \<and> n_sleeps ?evs = nat n - 1"
  proof (intro allI impI)
    fix n
    assume h: "count = PyInt n \<and> 0 < n \<and> (\<forall>j<nat n. send_ok en mac ip (n_runs tr + j))"
    then have ok: "\<forall>j<nat n. send_ok en mac ip (n_runs tr + j)" by blast
    have w: "wakeup en mac ip count tr =
               wakeup_loop en mac ip n 0 (tr @ [Log INFO (announcement en mac ip count)])"
      using h by (simp add: wakeup_def py_index_def)
    have "fst (wakeup_loop en mac ip n 0 (tr @ [Log INFO (announcement en mac ip count)])) = Inr ()"
      by (rule wakeup_loop_all_ok) (simp add: ok)
    then have "fst (wakeup en mac ip count tr) = Inr ()"
      by (simp only: w)
    moreover have "n_runs ?evs = nat n \<and> n_sleeps ?evs = nat n - 1"
      using h loop_events_all_ok [OF ok] by (simp add: py_index_def)
    ultimately show "fst (wakeup en mac ip count tr) = Inr () \<and>
         n_runs ?evs = nat n \<and> n_sleeps ?evs = nat n - 1" by blast
  qed
  show ?thesis using tr p f a by blast
qed

theorem wakeup_pauses_witness:
  "(0::int) < 3
   \<and> send_ok (example_env [sent, sent, sent]) (PyStr example_mac) PyNone 0
   \<and> send_ok (example_env [sent, sent, sent]) (PyStr example_mac) PyNone 1
   \<and> send_ok (example_env [sent, sent, sent]) (PyStr example_mac) PyNone 2
   \<and> fst (wakeup (example_env [sent, sent, sent]) (PyStr example_mac) PyNone (PyInt 3) []) = Inr ()
   \<and> n_runs (snd (wakeup (example_env [sent, sent, sent]) (PyStr example_mac) PyNone (PyInt 3) [])) = 3
   \<and> n_sleeps (snd (wakeup (example_env [sent, sent, sent]) (PyStr example_mac) PyNone (PyInt 3) [])) = 2
   \<and> pauses_between_sends
       (snd (wakeup (example_env [sent, sent, sent]) (PyStr example_mac) PyNone (PyInt 3) []))
   \<and> pauses_between_sends
       (snd (wakeup (example_env [sent, failed, sent]) (PyStr example_mac) PyNone (PyInt 3) []))
   \<and> no_pause_after_failure (send_ok (example_env [sent, failed, sent]) (PyStr example_mac) PyNone) 0
       (snd (wakeup (example_env [sent, failed, sent]) (PyStr example_mac) PyNone (PyInt 3) []))
   \<and> snd (wakeup (example_env [sent, failed, sent]) (PyStr example_mac) PyNone (PyInt 3) []) =
       [Log INFO ''Sending WoL (x3 to AA:BB:CC:DD:EE:FF'',
        Run [PyStr ''wakeonlan'', PyStr example_mac], Sleep 1,
        Run [PyStr ''wakeonlan'', PyStr example_mac],
        Log ERROR (''Error sending WoL packet: '' @ quote @ ''no route to host'' @ quote)]"
proof -
  have ok: "\<forall>j<nat 3. send_ok (example_env [sent, sent, sent]) (PyStr example_mac) PyNone (n_runs [] + j)"
  proof (intro allI impI)
    fix j :: nat
    assume "j < nat 3"
    then have "j = 0 \<or> j = Suc 0 \<or> j = 2" by auto
    then show "send_ok (example_env [sent, sent, sent]) (PyStr example_mac) PyNone (n_runs [] + j)"
      using example_send_ok(1-3) by auto
  qed
  obtain evs where
    e: "snd (wakeup (example_env [sent, sent, sent]) (PyStr example_mac) PyNone (PyInt 3) []) = [] @ evs"
    and p: "pauses_between_sends evs"
    and a: "\<forall>n. PyInt 3 = PyInt n \<and> 0 < n \<and>
              (\<forall>j<nat n. send_ok (example_env [sent, sent, sent]) (PyStr example_mac) PyNone
                 (n_runs [] + j)) \<longrightarrow>
              fst (wakeup (example_env [sent, sent, sent]) (PyStr example_mac) PyNone (PyInt 3) [])
                = Inr () \<and> n_runs evs = nat n \<and> n_sleeps evs = nat n - 1"
    using wakeup_pauses [of "example_env [sent, sent, sent]" "PyStr example_mac" PyNone "PyInt 3" "[]"]
    by blast
  from a [rule_format, of 3] ok
  have r: "fst (wakeup (example_env [sent, sent, sent]) (PyStr example_mac) PyNone (PyInt 3) [])
             = Inr () \<and> n_runs evs = 3 \<and> n_sleeps evs = 2"
    by simp
  obtain evs' where
    e': "snd (wakeup (example_env [sent, failed, sent]) (PyStr example_mac) PyNone (PyInt 3) []) = [] @ evs'"
    and p': "pauses_between_sends evs'"
    and f': "no_pause_after_failure (send_ok (example_env [sent, failed, sent]) (PyStr example_mac) PyNone)
               (n_runs []) evs'"
    using wakeup_pauses [of "example_env [sent, failed, sent]" "PyStr example_mac" PyNone "PyInt 3" "[]"]
    by blast
  show ?thesis
    using e p r e' p' f'
    by (simp add: example_wakeup_second_fails example_send_ok)
qed

subsection \<open>Broker session and main thread\<close>

lemma on_connect_refused:
  "rc \<noteq> 0 \<Longrightarrow>
     on_connect rc tr =
       tr @ [Log INFO (''MQTT: connected to broker with result code '' @ str_int rc),
             Log ERROR ''Failed to correctly login to MQTT broker'', Disconnect, Sleep 5]"
  by (simp add: on_connect_def)

lemma step_heartbeat_callback:
  "pc s = Heartbeat \<Longrightarrow> \<not> is_raised inp \<Longrightarrow> pc (step en cfg inp s) = Heartbeat"
  by (cases inp) (simp_all add: step_def callback_def)

lemma example_failed_login:
  "run (example_env []) example_cfg [Returned, ConnAck 5] (startup example_cfg) =
     \<lparr>pc = Heartbeat, looping = True,
      events =
        [Log INFO ''Starting up...'',
         NewClient ''wol-mqtt'',
         WillSet ''wol/status'' ''offline'',
         UsernamePwSet ''mqtt'' ''password'',
         Log INFO ''MQTT: connecting to broker...'',
         Connect ''mqtt.local'' 1883 60,
         LoopStart,
         Log DEBUG ''MQTT: publishing online Status update'',
         Publish ''wol/status'' ''online'',
         Sleep 60,
         Log INFO ''MQTT: connected to broker with result code 5'',
         Log ERROR ''Failed to correctly login to MQTT broker'',
         Disconnect,
         Sleep 5]\<rparr>"
  by (simp add: startup_def step_def callback_def on_connect_def connect_attempt_def
        heartbeat_round_def status_topic_def MQTT_BASE_TOPIC_def example_cfg_def
        str_int_def str_nat.simps)

lemma loop_events_no_subscribe: "filter is_subscribe (loop_events en mac ip k m) = []"
proof (induction m arbitrary: k)
  case 0
  show ?case by simp
next
  case (Suc m)
  show ?case
    using Suc [of "Suc k"]
    by (cases "subprocess_run en k (helper_args mac ip)") (simp_all add: loop_events.simps(2))
qed

lemma wakeup_no_subscribe:
  "filter is_subscribe (snd (wakeup en mac ip count tr)) = filter is_subscribe tr"
  by (cases "py_index count")
     (simp_all add: wakeup_def Let_def wakeup_loop_events loop_events_no_subscribe)

lemma except_no_subscribe:
  "filter is_subscribe (snd (except_JSONDecodeError raw r)) = filter is_subscribe (snd r)"
  by (cases r) (auto simp: except_JSONDecodeError_def split: sum.splits exc.splits)

lemma on_message_no_subscribe:
  "filter is_subscribe (snd (on_message en m tr)) = filter is_subscribe tr"
  by (simp add: on_message_def on_message_body_def except_no_subscribe wakeup_no_subscribe
        split: sum.splits)

lemma on_connect_subscribes:
  "filter is_subscribe (on_connect rc tr) =
     filter is_subscribe tr @ (if rc = 0 then [Subscribe ''wol/command''] else [])"
  by (simp add: on_connect_def MQTT_BASE_TOPIC_def)

text \<open>
  C8 (as amended). On every zero result delivered to the connect callback, the
  callback logs the result, subscribes to \<^verbatim>\<open>wol/command\<close> and then publishes \<^verbatim>\<open>online\<close>
  to \<^verbatim>\<open>wol/status\<close>: each once, in this order, and nothing else. Nothing else in the
  script subscribes: a step of the running script adds one subscribe when it
  dispatches a zero result, and none otherwise.
\<close>

theorem on_connect_success:
  "on_connect 0 tr =
     tr @ [Log INFO ''MQTT: connected to broker with result code 0'',
           Subscribe ''wol/command'',
           Publish ''wol/status'' ''online'']
   \<and> (looping s \<and> running s \<longrightarrow>
        step en cfg (ConnAck 0) s =
          s\<lparr>events := events s @
               [Log INFO ''MQTT: connected to broker with result code 0'',
                Subscribe ''wol/command'',
                Publish ''wol/status'' ''online'']\<rparr>)
   \<and> filter is_subscribe (events (step en cfg inp s)) =
       filter is_subscribe (events s) @
         (if inp = ConnAck 0 \<and> looping s \<and> running s then [Subscribe ''wol/command''] else [])"
proof (intro conjI impI)
  show c: "on_connect 0 tr =
     tr @ [Log INFO ''MQTT: connected to broker with result code 0'',
           Subscribe ''wol/command'',
           Publish ''wol/status'' ''online'']" for tr
    by (simp add: on_connect_def MQTT_BASE_TOPIC_def str_int_def str_nat.simps)
  show "step en cfg (ConnAck 0) s =
          s\<lparr>events := events s @
               [Log INFO ''MQTT: connected to broker with result code 0'',
                Subscribe ''wol/command'',
                Publish ''wol/status'' ''online'']\<rparr>"
    if "looping s \<and> running s"
    using that by (cases "pc s") (simp_all add: step_def callback_def running_def c)
  show "filter is_subscribe (events (step en cfg inp s)) =
       filter is_subscribe (events s) @
         (if inp = ConnAck 0 \<and> looping s \<and> running s then [Subscribe ''wol/command''] else [])"
  proof (cases "pc s")
    case Connecting
    then show ?thesis
      by (cases inp)
         (simp_all add: step_def callback_def running_def raise_main_def heartbeat_round_def
            refused_def shutdown_head_def on_connect_subscribes on_message_no_subscribe)
  next
    case Backoff
    then show ?thesis
      by (cases inp)
         (simp_all add: step_def callback_def running_def raise_main_def connect_attempt_def
            shutdown_head_def on_connect_subscribes on_message_no_subscribe)
  next
    case Heartbeat
    then show ?thesis
      by (cases inp)
         (simp_all add: step_def callback_def running_def raise_main_def heartbeat_round_def
            refused_def shutdown_head_def on_connect_subscribes on_message_no_subscribe)
  next
    case Closing
    then show ?thesis
      by (cases inp)
         (simp_all add: step_def callback_def running_def shutdown_tail_def
            on_connect_subscribes on_message_no_subscribe)
  next
    case Exited
    then show ?thesis by (simp add: step_def running_def)
  next
    case (Crashed e)
    then show ?thesis by (simp add: step_def running_def)
  qed
qed

theorem on_connect_success_witness:
  "looping (run (example_env []) example_cfg [Returned] (startup example_cfg))
   \<and> running (run (example_env []) example_cfg [Returned] (startup example_cfg))
   \<and> events (step (example_env []) example_cfg (ConnAck 0)
        (run (example_env []) example_cfg [Returned] (startup example_cfg))) =
       events (run (example_env []) example_cfg [Returned] (startup example_cfg)) @
         [Log INFO ''MQTT: connected to broker with result code 0'',
          Subscribe ''wol/command'',
          Publish ''wol/status'' ''online'']
   \<and> filter is_subscribe (events (step (example_env []) example_cfg (ConnAck 0)
        (run (example_env []) example_cfg [Returned] (startup example_cfg)))) =
       [Subscribe ''wol/command'']"
proof -
  let ?s = "run (example_env []) example_cfg [Returned] (startup example_cfg)"
  have l: "looping ?s" and r: "running ?s"
    by (simp_all add: startup_def step_def running_def)
  have n: "filter is_subscribe (events ?s) = []"
    by (simp add: startup_def step_def connect_attempt_def heartbeat_round_def)
  show ?thesis
    using on_connect_success [of "[]" ?s "example_env []" example_cfg "ConnAck 0"] l r n
    by (simp del: run.simps)
qed

text \<open>
  C8 as stated fails for the publish: the heartbeat loop publishes \<^verbatim>\<open>online\<close> as soon as
  \<^verbatim>\<open>client.connect\<close> has returned, so with one successful connect \<^verbatim>\<open>online\<close> is
  published twice, the first time before the subscribe.
\<close>

theorem online_published_before_subscribe:
  "events (run (example_env []) example_cfg [Returned, ConnAck 0] (startup example_cfg)) =
     [Log INFO ''Starting up...'',
      NewClient ''wol-mqtt'',
      WillSet ''wol/status'' ''offline'',
      UsernamePwSet ''mqtt'' ''password'',
      Log INFO ''MQTT: connecting to broker...'',
      Connect ''mqtt.local'' 1883 60,
      LoopStart,
      Log DEBUG ''MQTT: publishing online Status update'',
      Publish ''wol/status'' ''online'',
      Sleep 60,
      Log INFO ''MQTT: connected to broker with result code 0'',
      Subscribe ''wol/command'',
      Publish ''wol/status'' ''online'']"
  by (simp add: startup_def step_def callback_def on_connect_def connect_attempt_def
        heartbeat_round_def status_topic_def MQTT_BASE_TOPIC_def example_cfg_def
        str_int_def str_nat.simps)

text \<open>
  C6 (as amended). On a non-zero result code the connect callback neither subscribes
  nor publishes: it logs the result and an error, calls \<^verbatim>\<open>client.disconnect()\<close> and
  pauses 5 seconds. The script does not end: the main thread stays in its heartbeat
  loop.
\<close>

theorem on_connect_failure:
  assumes "rc \<noteq> 0" and "pc s = Heartbeat" and "looping s"
  shows "on_connect rc tr =
           tr @ [Log INFO (''MQTT: connected to broker with result code '' @ str_int rc),
                 Log ERROR ''Failed to correctly login to MQTT broker'', Disconnect, Sleep 5]
         \<and> step en cfg (ConnAck rc) s =
             s\<lparr>events := events s @
                  [Log INFO (''MQTT: connected to broker with result code '' @ str_int rc),
                   Log ERROR ''Failed to correctly login to MQTT broker'', Disconnect, Sleep 5]\<rparr>"
  using assms by (simp add: step_def callback_def on_connect_refused)

theorem on_connect_failure_witness:
  "(5::int) \<noteq> 0
   \<and> pc (run (example_env []) example_cfg [Returned] (startup example_cfg)) = Heartbeat
   \<and> looping (run (example_env []) example_cfg [Returned] (startup example_cfg))
   \<and> on_connect 5 [] =
       [Log INFO ''MQTT: connected to broker with result code 5'',
        Log ERROR ''Failed to correctly login to MQTT broker'', Disconnect, Sleep 5]
   \<and> pc (step (example_env []) example_cfg (ConnAck 5)
           (run (example_env []) example_cfg [Returned] (startup example_cfg))) = Heartbeat"
proof -
  let ?s = "run (example_env []) example_cfg [Returned] (startup example_cfg)"
  have p: "pc ?s = Heartbeat" and l: "looping ?s"
    by (simp_all add: startup_def step_def)
  have n: "(5::int) \<noteq> 0" by simp
  have "on_connect 5 [] =
       [Log INFO ''MQTT: connected to broker with result code 5'',
        Log ERROR ''Failed to correctly login to MQTT broker'', Disconnect, Sleep 5]
     \<and> pc (step (example_env []) example_cfg (ConnAck 5) ?s) = Heartbeat"
    using on_connect_failure [OF n p l, of "[]" "example_env []" example_cfg] p
    by (simp del: run.simps add: str_int_def str_nat.simps)
  then show ?thesis using p l by (simp del: run.simps)
qed

text \<open>
  C6 as stated fails in its last part: nothing leads from the failed login back to
  \<^verbatim>\<open>client.connect\<close>. After the result code 5 and three more heartbeat intervals the
  main thread is still in the heartbeat loop and \<^verbatim>\<open>client.connect\<close> has been called
  once, at startup.
\<close>

theorem failed_login_no_reconnect:
  "pc (run (example_env []) example_cfg [Returned, ConnAck 5, Returned, Returned, Returned]
         (startup example_cfg)) = Heartbeat
   \<and> filter is_connect
       (events (run (example_env []) example_cfg [Returned, ConnAck 5, Returned, Returned, Returned]
                  (startup example_cfg))) = [Connect ''mqtt.local'' 1883 60]"
  by (simp add: startup_def step_def callback_def on_connect_def connect_attempt_def
        heartbeat_round_def example_cfg_def)

text \<open>
  C7 (as amended). Once \<^verbatim>\<open>client.connect\<close> has returned, the heartbeat loop publishes
  \<^verbatim>\<open>online\<close> to \<^verbatim>\<open>wol/status\<close> and sleeps \<^verbatim>\<open>UPDATE_INTERVAL\<close> seconds, again and again.
  It does not look at the state of the connection, and no callback ends it: the main
  thread leaves the loop only when an exception is raised in it.
\<close>

theorem heartbeat_loop:
  assumes "pc s = Heartbeat" and "filter is_raised inps = []"
  shows "step en cfg Returned s =
           s\<lparr>events := events s @
                [Log DEBUG ''MQTT: publishing online Status update'',
                 Publish ''wol/status'' ''online'',
                 Sleep (update_interval cfg)]\<rparr>
         \<and> pc (run en cfg inps s) = Heartbeat"
proof
  show "step en cfg Returned s =
           s\<lparr>events := events s @
                [Log DEBUG ''MQTT: publishing online Status update'',
                 Publish ''wol/status'' ''online'',
                 Sleep (update_interval cfg)]\<rparr>"
    using assms(1)
    by (simp add: step_def heartbeat_round_def status_topic_def MQTT_BASE_TOPIC_def)
  show "pc (run en cfg inps s) = Heartbeat"
    using assms
  proof (induction inps arbitrary: s)
    case Nil
    then show ?case by simp
  next
    case (Cons inp inps)
    from Cons.prems(2) have r: "\<not> is_raised inp" and rest: "filter is_raised inps = []"
      by (simp_all split: if_splits)
    have "pc (step en cfg inp s) = Heartbeat"
      using Cons.prems(1) r by (rule step_heartbeat_callback)
    from Cons.IH [OF this rest] show ?case by simp
  qed
qed

theorem heartbeat_loop_witness:
  "pc (run (example_env []) example_cfg [Returned, ConnAck 5] (startup example_cfg)) = Heartbeat
   \<and> filter is_raised [Returned, ConnAck 0, Message (command ''123''), Returned] = []
   \<and> events (step (example_env []) example_cfg Returned
        (run (example_env []) example_cfg [Returned, ConnAck 5] (startup example_cfg))) =
       events (run (example_env []) example_cfg [Returned, ConnAck 5] (startup example_cfg)) @
         [Log DEBUG ''MQTT: publishing online Status update'',
          Publish ''wol/status'' ''online'',
          Sleep 60]
   \<and> pc (run (example_env []) example_cfg
           [Returned, ConnAck 0, Message (command ''123''), Returned]
           (run (example_env []) example_cfg [Returned, ConnAck 5] (startup example_cfg)))
       = Heartbeat"
proof -
  let ?s = "run (example_env []) example_cfg [Returned, ConnAck 5] (startup example_cfg)"
  have p: "pc ?s = Heartbeat"
    unfolding example_failed_login by simp
  have f: "filter is_raised [Returned, ConnAck 0, Message (command ''123''), Returned] = []"
    by simp
  show ?thesis
    using heartbeat_loop [OF p f, of "example_env []" example_cfg] p
    by (simp del: run.simps add: example_cfg_def)
qed

text \<open>
  C7 as stated fails: the heartbeat goes on when the session is disconnected. In the
  run below the broker refuses the login with result code 5 and the callback
  disconnects the client; when the current interval is over the main thread, still
  in its loop, publishes \<^verbatim>\<open>online\<close> again.
\<close>

theorem heartbeat_after_disconnect:
  "run (example_env []) example_cfg [Returned, ConnAck 5, Returned] (startup example_cfg) =
     \<lparr>pc = Heartbeat, looping = True,
      events =
        [Log INFO ''Starting up...'',
         NewClient ''wol-mqtt'',
         WillSet ''wol/status'' ''offline'',
         UsernamePwSet ''mqtt'' ''password'',
         Log INFO ''MQTT: connecting to broker...'',
         Connect ''mqtt.local'' 1883 60,
         LoopStart,
         Log DEBUG ''MQTT: publishing online Status update'',
         Publish ''wol/status'' ''online'',
         Sleep 60,
         Log INFO ''MQTT: connected to broker with result code 5'',
         Log ERROR ''Failed to correctly login to MQTT broker'',
         Disconnect,
         Sleep 5,
         Log DEBUG ''MQTT: publishing online Status update'',
         Publish ''wol/status'' ''online'',
         Sleep 60]\<rparr>"
  by (simp add: startup_def step_def callback_def on_connect_def connect_attempt_def
        heartbeat_round_def status_topic_def MQTT_BASE_TOPIC_def example_cfg_def
        str_int_def str_nat.simps)

text \<open>
  C9. On an interrupt, in whatever state the connection is (the main thread may be
  waiting in \<^verbatim>\<open>client.connect\<close>, in the pause after a refused connection or in the
  heartbeat loop, the client connected or not), the script publishes \<^verbatim>\<open>offline\<close> once,
  pauses 3 seconds, stops the network loop and disconnects, in this order, and ends
  normally.
\<close>

theorem interrupt_shutdown:
  assumes "pc s = Connecting \<or> pc s = Backoff \<or> pc s = Heartbeat"
  shows "run en cfg [Raised KeyboardInterrupt, Returned] s =
           s\<lparr>pc := Exited, looping := False,
             events := events s @
               [Log INFO ''Interrupted... shutting down'',
                Log INFO ''MQTT: Publishing offline status'',
                Publish ''wol/status'' ''offline'',
                Sleep 3,
                Log INFO ''MQTT: disconnecting'',
                LoopStop,
                Disconnect]\<rparr>"
  using assms
  by (auto simp: step_def raise_main_def shutdown_head_def shutdown_tail_def
        status_topic_def MQTT_BASE_TOPIC_def)

theorem interrupt_shutdown_witness:
  "pc (run (example_env []) example_cfg [Returned, ConnAck 5] (startup example_cfg)) = Heartbeat
   \<and> run (example_env []) example_cfg [Raised KeyboardInterrupt, Returned]
       (run (example_env []) example_cfg [Returned, ConnAck 5] (startup example_cfg)) =
     \<lparr>pc = Exited, looping = False,
      events =
        [Log INFO ''Starting up...'',
         NewClient ''wol-mqtt'',
         WillSet ''wol/status'' ''offline'',
         UsernamePwSet ''mqtt'' ''password'',
         Log INFO ''MQTT: connecting to broker...'',
         Connect ''mqtt.local'' 1883 60,
         LoopStart,
         Log DEBUG ''MQTT: publishing online Status update'',
         Publish ''wol/status'' ''online'',
         Sleep 60,
         Log INFO ''MQTT: connected to broker with result code 5'',
         Log ERROR ''Failed to correctly login to MQTT broker'',
         Disconnect,
         Sleep 5,
         Log INFO ''Interrupted... shutting down'',
         Log INFO ''MQTT: Publishing offline status'',
         Publish ''wol/status'' ''offline'',
         Sleep 3,
         Log INFO ''MQTT: disconnecting'',
         LoopStop,
         Disconnect]\<rparr>"
proof -
  let ?s = "run (example_env []) example_cfg [Returned, ConnAck 5] (startup example_cfg)"
  have p: "pc ?s = Heartbeat"
    unfolding example_failed_login by simp
  then have h: "pc ?s = Connecting \<or> pc ?s = Backoff \<or> pc ?s = Heartbeat"
    by simp
  show ?thesis
    using interrupt_shutdown [OF h, of "example_env []" example_cfg] p
    by (simp del: run.simps add: example_failed_login)
qed

end
